theory Spec2Isabelle
  imports Main "HOL-Library.Word"
begin

section \<open>Ingestion configuration (package processing, config.go)\<close>

text \<open>
  The configuration structs, field for field. \<open>AllowZero\<close> is a \<open>*bool\<close> in the source:
  \<open>None\<close> is the nil pointer (the key \<open>allow_zero\<close> is absent from the YAML).
\<close>

record ValidationRule =
  Required :: bool
  AllowZero :: "bool option"
  Enum :: "string list"
  Regex :: string
  ExistsInItems :: string

record ProcessingAttempt =
  Transforms :: "string list"

record ColumnMapping =
  CSVHeader :: string
  JSONField :: string
  MergeExcessFields :: bool
  Attempts :: "ProcessingAttempt list"
  Validation :: ValidationRule

record EmbedContent =
  SourceColumns :: "string list"

record IngestionConfig =
  ReportType :: string
  ItemType :: string
  ScopeField :: string
  BusinessKey :: "string list"
  EmbedContent :: "EmbedContent option"
  ColumnMappings :: "ColumnMapping list"

datatype config_error =
    ReportTypeRequired
  | ItemTypeRequired
  | ScopeFieldRequired
  | BusinessKeyRequired
  | ColumnMappingRequired
  | ScopeFieldNotDefined string

text \<open>The lookup table \<open>definedHeaders\<close> that \<open>Validate\<close> fills in its loop.\<close>

fun definedHeadersLoop :: "ColumnMapping list \<Rightarrow> (string \<rightharpoonup> bool) \<Rightarrow> (string \<rightharpoonup> bool)" where
  "definedHeadersLoop [] definedHeaders = definedHeaders"
| "definedHeadersLoop (mapping # rest) definedHeaders =
     definedHeadersLoop rest (definedHeaders(CSVHeader mapping \<mapsto> True))"

text \<open>\<open>IngestionConfig.Validate\<close>: \<open>None\<close> is the nil error.\<close>

definition Validate :: "IngestionConfig \<Rightarrow> config_error option" where
  "Validate c =
     (if ReportType c = [] then Some ReportTypeRequired
      else if ItemType c = [] then Some ItemTypeRequired
      else if ScopeField c = [] then Some ScopeFieldRequired
      else if length (BusinessKey c) = 0 then Some BusinessKeyRequired
      else if length (ColumnMappings c) = 0 then Some ColumnMappingRequired
      else (let definedHeaders = definedHeadersLoop (ColumnMappings c) Map.empty in
            case definedHeaders (ScopeField c) of
              None \<Rightarrow> Some (ScopeFieldNotDefined (ScopeField c))
            | Some _ \<Rightarrow> None))"

section \<open>Dynamic values and the library functions the code calls\<close>

text \<open>
  The values an \<open>interface{}\<close> holds in this package. The transforms produce nil,
  \<open>string\<close>, \<open>int64\<close>, \<open>decimal.Decimal\<close> and \<open>time.Time\<close>; the required check also
  switches on \<open>int\<close> and \<open>int32\<close>. A \<open>Decimal\<close> is its unscaled value and exponent, a
  \<open>Time\<close> its seconds and nanoseconds since the zero instant (year 1, UTC).
\<close>

datatype Decimal = Decimal (dvalue: int) (dexp: int)

datatype Time = Time (tsec: int) (tnsec: int)

datatype dyn_value =
    VNil
  | VString string
  | VInt "64 word"
  | VInt32 "32 word"
  | VInt64 "64 word"
  | VDecimal Decimal
  | VTime Time

definition Decimal_IsZero :: "Decimal \<Rightarrow> bool" where
  "Decimal_IsZero d = (dvalue d = 0)"

definition Time_IsZero :: "Time \<Rightarrow> bool" where
  "Time_IsZero t = (tsec t = 0 \<and> tnsec t = 0)"

text \<open>
  Functions of libraries and collaborators outside the repository are parameters of the
  model, so every theorem holds whatever they compute: \<open>strings.TrimSpace\<close> and
  \<open>strings.ToUpper\<close> (which follow the Unicode tables), the parsers of \<open>strconv\<close>,
  \<open>decimal\<close> and \<open>time\<close> (\<open>None\<close> is a parse error), \<open>regexp\<close> (\<open>None\<close> when the pattern does
  not compile, otherwise the match predicate), the string forms \<open>fmt\<close> prints for a decimal
  and a time, the error of \<open>json.Marshal\<close> if any, and the order in which the runtime
  ranges over the validation registry (a Go map, whose iteration order is unspecified).
\<close>

record Lib =
  TrimSpace :: "string \<Rightarrow> string"
  ToUpper :: "string \<Rightarrow> string"
  ParseInt :: "string \<Rightarrow> 64 word option"
  NewFromString :: "string \<Rightarrow> Decimal option"
  ParseInLocation :: "string \<Rightarrow> string \<Rightarrow> Time option"
  Compile :: "string \<Rightarrow> (string \<Rightarrow> bool) option"
  DecimalString :: "Decimal \<Rightarrow> string"
  TimeString :: "Time \<Rightarrow> string"
  MarshalError :: "(string \<rightharpoonup> dyn_value) \<Rightarrow> string option"
  RangeOrder :: "string list"

text \<open>
  The persistence querier as far as row processing reads it: the existence query returns
  \<open>Inl\<close> on a database error, otherwise the integer of \<open>SELECT EXISTS(...)::int\<close>.
\<close>

record Querier =
  ItemExistsByBusinessKey :: "string \<Rightarrow> string \<Rightarrow> string + int"

subsection \<open>Package strings\<close>

text \<open>Strings are byte lists.\<close>

text \<open>\<open>strings.ReplaceAll(s, ",", "")\<close>.\<close>

definition removeCommas :: "string \<Rightarrow> string" where
  "removeCommas s = filter (\<lambda>c. c \<noteq> CHR '','') s"

text \<open>\<open>strings.SplitN(s, ":", 2)\<close>: one part without a colon, else two, cut at the first.\<close>

definition SplitN2 :: "string \<Rightarrow> string list" where
  "SplitN2 s =
     (case dropWhile (\<lambda>c. c \<noteq> CHR '':'') s of
        [] \<Rightarrow> [s]
      | _ # rest \<Rightarrow> [takeWhile (\<lambda>c. c \<noteq> CHR '':'') s, rest])"

text \<open>\<open>strings.Join\<close>.\<close>

fun Join :: "string list \<Rightarrow> string \<Rightarrow> string" where
  "Join [] sep = []"
| "Join [x] sep = x"
| "Join (x # y # ys) sep = x @ sep @ Join (y # ys) sep"

text \<open>
  A slice expression \<open>s[lo:hi]\<close>. \<open>None\<close> is the run-time panic; the bound checked is the
  length (Go checks the capacity, which is at least the length).
\<close>

definition slice :: "'a list \<Rightarrow> int \<Rightarrow> int \<Rightarrow> 'a list option" where
  "slice s lo hi =
     (if 0 \<le> lo \<and> lo \<le> hi \<and> hi \<le> int (length s)
      then Some (take (nat (hi - lo)) (drop (nat lo) s)) else None)"

subsection \<open>Formatting with the verb v\<close>

fun digitsOf :: "nat \<Rightarrow> string" where
  "digitsOf n =
     (if n < 10 then [char_of (48 + n)]
      else digitsOf (n div 10) @ [char_of (48 + n mod 10)])"

definition FormatInt :: "int \<Rightarrow> string" where
  "FormatInt i = (if i < 0 then CHR ''-'' # digitsOf (nat (- i)) else digitsOf (nat i))"

definition Sprintv :: "Lib \<Rightarrow> dyn_value \<Rightarrow> string" where
  "Sprintv L v =
     (case v of
        VNil \<Rightarrow> ''<nil>''
      | VString s \<Rightarrow> s
      | VInt i \<Rightarrow> FormatInt (sint i)
      | VInt32 i \<Rightarrow> FormatInt (sint i)
      | VInt64 i \<Rightarrow> FormatInt (sint i)
      | VDecimal d \<Rightarrow> DecimalString L d
      | VTime t \<Rightarrow> TimeString L t)"

section \<open>Transform and validation registries (registry.go)\<close>

datatype transform_error =
    RequiresString string
  | CouldNotParseInteger string
  | CouldNotParseDecimal string
  | CouldNotParseDate string string
  | UnknownTransform string
  | TransformFailed string transform_error

datatype validation_error =
    IsRequired
  | ZeroNotAllowed
  | EnumNeedsString
  | NotInAllowedList string "string list"
  | InvalidRegex string
  | RegexNeedsString
  | RegexNoMatch string string
  | ExistsNeedsString
  | DatabaseError string
  | DoesNotExist string string
  | RuleFailed string validation_error

type_synonym TransformFunc = "Lib \<Rightarrow> dyn_value \<Rightarrow> string \<Rightarrow> transform_error + dyn_value"

type_synonym ValidationFunc =
  "Lib \<Rightarrow> Querier \<Rightarrow> dyn_value \<Rightarrow> ValidationRule \<Rightarrow> validation_error option"

definition transformTrimSpace :: TransformFunc where
  "transformTrimSpace L input arg =
     (case input of
        VString str \<Rightarrow> Inr (VString (TrimSpace L str))
      | _ \<Rightarrow> Inl (RequiresString ''trim_space''))"

definition transformToUppercase :: TransformFunc where
  "transformToUppercase L input arg =
     (case input of
        VString str \<Rightarrow> Inr (VString (ToUpper L str))
      | _ \<Rightarrow> Inl (RequiresString ''to_uppercase''))"

definition transformToInteger :: TransformFunc where
  "transformToInteger L input arg =
     (case input of
        VString str \<Rightarrow>
          (let cleanStr = TrimSpace L (removeCommas str) in
           if cleanStr = [] then Inr VNil
           else (case ParseInt L cleanStr of
                   None \<Rightarrow> Inl (CouldNotParseInteger str)
                 | Some i \<Rightarrow> Inr (VInt64 i)))
      | _ \<Rightarrow> Inl (RequiresString ''to_integer''))"

definition transformToDecimal :: TransformFunc where
  "transformToDecimal L input arg =
     (case input of
        VString str \<Rightarrow>
          (case NewFromString L str of
             None \<Rightarrow> Inl (CouldNotParseDecimal str)
           | Some d \<Rightarrow> Inr (VDecimal d))
      | _ \<Rightarrow> Inl (RequiresString ''to_decimal''))"

definition transformToDate :: TransformFunc where
  "transformToDate L input arg =
     (let layout = (if arg = [] then ''2006-01-02'' else arg) in
      case input of
        VString str \<Rightarrow>
          (case ParseInLocation L layout str of
             None \<Rightarrow> Inl (CouldNotParseDate str layout)
           | Some t \<Rightarrow> Inr (VTime t))
      | _ \<Rightarrow> Inl (RequiresString ''to_date''))"

text \<open>The registry that \<open>init\<close> fills, as a lookup by name.\<close>

definition transformRegistry :: "string \<rightharpoonup> TransformFunc" where
  "transformRegistry =
     map_of [(''trim_space'', transformTrimSpace),
             (''to_uppercase'', transformToUppercase),
             (''to_integer'', transformToInteger),
             (''to_decimal'', transformToDecimal),
             (''to_date'', transformToDate)]"

text \<open>
  \<open>validationRequired\<close>. \<open>allowZero\<close> starts true and becomes false only when the rule
  carries an \<open>allow_zero\<close> that is false.
\<close>

definition validationRequired :: ValidationFunc where
  "validationRequired L queries input rule =
     (if \<not> Required rule then None
      else if input = VNil then Some IsRequired
      else
        (let allowZero = (case AllowZero rule of Some b \<Rightarrow> (if \<not> b then False else True) | None \<Rightarrow> True) in
         case input of
           VString v \<Rightarrow> (if TrimSpace L v = [] then Some IsRequired else None)
         | VInt i \<Rightarrow>
             (let val = (scast i :: 64 word) in
              if \<not> allowZero \<and> val = 0 then Some ZeroNotAllowed else None)
         | VInt32 i \<Rightarrow>
             (let val = (scast i :: 64 word) in
              if \<not> allowZero \<and> val = 0 then Some ZeroNotAllowed else None)
         | VInt64 i \<Rightarrow>
             (let val = i in
              if \<not> allowZero \<and> val = 0 then Some ZeroNotAllowed else None)
         | VDecimal v \<Rightarrow> (if \<not> allowZero \<and> Decimal_IsZero v then Some ZeroNotAllowed else None)
         | VTime v \<Rightarrow> (if Time_IsZero v then Some IsRequired else None)
         | VNil \<Rightarrow> None))"

definition validateEnum :: ValidationFunc where
  "validateEnum L queries input rule =
     (if length (Enum rule) = 0 then None
      else (case input of
              VString str \<Rightarrow>
                (if str \<in> set (Enum rule) then None
                 else Some (NotInAllowedList str (Enum rule)))
            | _ \<Rightarrow> Some EnumNeedsString))"

definition validateRegex :: ValidationFunc where
  "validateRegex L queries input rule =
     (if Regex rule = [] then None
      else (case Compile L (Regex rule) of
              None \<Rightarrow> Some (InvalidRegex (Regex rule))
            | Some MatchString \<Rightarrow>
                (case input of
                   VString str \<Rightarrow>
                     (if \<not> MatchString str then Some (RegexNoMatch str (Regex rule)) else None)
                 | _ \<Rightarrow> Some RegexNeedsString)))"

definition validateExistsInItems :: ValidationFunc where
  "validateExistsInItems L queries input rule =
     (if ExistsInItems rule = [] then None
      else (let itemTypeToCheck = ExistsInItems rule in
            case input of
              VString v \<Rightarrow>
                (if v = [] then None
                 else (case ItemExistsByBusinessKey queries itemTypeToCheck v of
                         Inl err \<Rightarrow> Some (DatabaseError v)
                       | Inr exists \<Rightarrow>
                           (if exists = 0 then Some (DoesNotExist v itemTypeToCheck) else None)))
            | _ \<Rightarrow> Some ExistsNeedsString))"

definition validationRegistry :: "string \<rightharpoonup> ValidationFunc" where
  "validationRegistry =
     map_of [(''required'', validationRequired),
             (''enum'', validateEnum),
             (''regex'', validateRegex),
             (''exists_in_items'', validateExistsInItems)]"

section \<open>The generic processor (package processing, processor.go)\<close>

text \<open>
  A triage reason is kept as the data its message is formatted from. The error a failed
  mapping wraps is the loop variable \<open>transformError\<close>, which is nil (\<open>None\<close>) until an
  attempt has failed.
\<close>

datatype failure =
    RowShape nat nat
  | AllAttemptsFailed string string "transform_error option"
  | ValidationFailed string dyn_value validation_error
  | EmbeddingFailed nat string
  | MarshalFailed nat string
  | ScopeMissing string
  | ScopeNotString string
  | BusinessKeyMissing string

datatype process_error =
    HeaderRowError string
  | MissingRequiredHeader string
  | ReadAllError string
  | NoScopeMapping string
  | SliceBoundsPanic

text \<open>
  \<open>repository.Item\<close> as the processor fills it. A \<open>pgtype.Text\<close> is \<open>Some s\<close> when valid;
  the marshalled JSON object is kept as the object it encodes; a \<open>float32\<close> is its 32 bits.
\<close>

record Item =
  ItemType :: string
  Scope :: "string option"
  BusinessKey :: "string option"
  Status :: string
  CustomProperties :: "string \<rightharpoonup> dyn_value"
  Embedding :: "32 word list"

record TriageRow =
  OriginalRecord :: "string \<rightharpoonup> string"
  FailureReason :: failure

record ProcessingResult =
  SuccessfulItems :: "Item list"
  TriageRows :: "TriageRow list"
  BlankRowsDiscarded :: nat

text \<open>
  The file as the CSV reader presents it: the outcome of the first \<open>Read\<close> and of
  \<open>ReadAll\<close> (\<open>Inl\<close> is the reader's error).
\<close>

record CSVFile =
  Read :: "string + string list"
  ReadAll :: "string + string list list"

type_synonym EmbedderFunc = "string \<Rightarrow> string + 32 word list"

fun isRowBlank :: "Lib \<Rightarrow> string list \<Rightarrow> bool" where
  "isRowBlank L [] = True"
| "isRowBlank L (field # rest) = (if TrimSpace L field \<noteq> [] then False else isRowBlank L rest)"

fun createOriginalRecordMapLoop ::
  "string list \<Rightarrow> nat \<Rightarrow> string list \<Rightarrow> (string \<rightharpoonup> string) \<Rightarrow> (string \<rightharpoonup> string)" where
  "createOriginalRecordMapLoop record i [] rowMap = rowMap"
| "createOriginalRecordMapLoop record i (header # rest) rowMap =
     createOriginalRecordMapLoop record (Suc i) rest
       (if i < length record then rowMap(header \<mapsto> record ! i) else rowMap(header \<mapsto> []))"

definition createOriginalRecordMap :: "string list \<Rightarrow> string list \<Rightarrow> (string \<rightharpoonup> string)" where
  "createOriginalRecordMap record headers = createOriginalRecordMapLoop record 0 headers Map.empty"

text \<open>The loop of \<open>applyTransforms\<close> over the chain, from the current value.\<close>

fun transformLoop :: "Lib \<Rightarrow> dyn_value \<Rightarrow> string list \<Rightarrow> transform_error + dyn_value" where
  "transformLoop L currentValue [] = Inr currentValue"
| "transformLoop L currentValue (transformCall # rest) =
     (let parts = SplitN2 transformCall;
          transformName = parts ! 0;
          arg = (if length parts > 1 then parts ! 1 else [])
      in case transformRegistry transformName of
           None \<Rightarrow> Inl (UnknownTransform transformName)
         | Some transformer \<Rightarrow>
             (case transformer L currentValue arg of
                Inl err \<Rightarrow> Inl (TransformFailed transformName err)
              | Inr newValue \<Rightarrow> transformLoop L newValue rest))"

definition applyTransforms :: "Lib \<Rightarrow> string \<Rightarrow> string list \<Rightarrow> transform_error + dyn_value" where
  "applyTransforms L v transforms = transformLoop L (VString v) transforms"

text \<open>
  The range over the validation registry, in the order the runtime picks. A name the
  registry does not hold cannot come out of the range and is passed over.
\<close>

fun validationLoop ::
  "Lib \<Rightarrow> Querier \<Rightarrow> dyn_value \<Rightarrow> ValidationRule \<Rightarrow> string list \<Rightarrow> validation_error option" where
  "validationLoop L queries v rules [] = None"
| "validationLoop L queries v rules (name # rest) =
     (case validationRegistry name of
        None \<Rightarrow> validationLoop L queries v rules rest
      | Some validationFunc \<Rightarrow>
          (case validationFunc L queries v rules of
             Some err \<Rightarrow> Some (RuleFailed name err)
           | None \<Rightarrow> validationLoop L queries v rules rest))"

definition applyValidation ::
  "Lib \<Rightarrow> Querier \<Rightarrow> dyn_value \<Rightarrow> ValidationRule \<Rightarrow> validation_error option" where
  "applyValidation L queries v rules =
     (if v = VString [] \<and> \<not> Required rules then None
      else validationLoop L queries v rules (RangeOrder L))"

text \<open>
  The loop over a mapping's attempts. The state is the three variables the source
  declares before it: \<open>transformedValue\<close>, \<open>transformError\<close>, \<open>transformSuccessful\<close>.
\<close>

fun attemptsLoop ::
  "Lib \<Rightarrow> string \<Rightarrow> ProcessingAttempt list \<Rightarrow> dyn_value \<times> transform_error option \<times> bool
     \<Rightarrow> dyn_value \<times> transform_error option \<times> bool" where
  "attemptsLoop L rawValue [] st = st"
| "attemptsLoop L rawValue (attempt # rest) (transformedValue, transformError, transformSuccessful) =
     (case applyTransforms L rawValue (Transforms attempt) of
        Inr val \<Rightarrow> (val, transformError, True)
      | Inl err \<Rightarrow> attemptsLoop L rawValue rest (transformedValue, Some err, transformSuccessful))"

text \<open>
  The raw field of a mapping: a header absent from the map reads index 0 (the zero value
  of a Go map lookup), an index past the record leaves the empty string.
\<close>

definition rawField :: "string list \<Rightarrow> (string \<rightharpoonup> nat) \<Rightarrow> ColumnMapping \<Rightarrow> string" where
  "rawField record headerMap mapping =
     (let colIdx = (case headerMap (CSVHeader mapping) of None \<Rightarrow> 0 | Some i \<Rightarrow> i)
      in if colIdx < length record then record ! colIdx else [])"

text \<open>The body of the loop of \<open>processRow\<close> for one column mapping.\<close>

definition processColumn ::
  "Lib \<Rightarrow> Querier \<Rightarrow> string list \<Rightarrow> (string \<rightharpoonup> nat) \<Rightarrow> ColumnMapping \<Rightarrow> (string \<rightharpoonup> dyn_value)
     \<Rightarrow> failure + (string \<rightharpoonup> dyn_value)" where
  "processColumn L queries record headerMap mapping processedData =
     (let rawValue = rawField record headerMap mapping;
          (transformedValue, transformError, transformSuccessful) =
            (if length (Attempts mapping) > 0
             then attemptsLoop L rawValue (Attempts mapping) (VString rawValue, None, False)
             else (VString rawValue, None, True))
      in if \<not> transformSuccessful
         then Inl (AllAttemptsFailed (CSVHeader mapping) rawValue transformError)
         else (case applyValidation L queries transformedValue (Validation mapping) of
                 Some err \<Rightarrow> Inl (ValidationFailed (CSVHeader mapping) transformedValue err)
               | None \<Rightarrow> Inr (processedData(JSONField mapping \<mapsto> transformedValue))))"

fun processRowLoop ::
  "Lib \<Rightarrow> Querier \<Rightarrow> string list \<Rightarrow> (string \<rightharpoonup> nat) \<Rightarrow> ColumnMapping list
     \<Rightarrow> (string \<rightharpoonup> dyn_value) \<Rightarrow> failure + (string \<rightharpoonup> dyn_value)" where
  "processRowLoop L queries record headerMap [] processedData = Inr processedData"
| "processRowLoop L queries record headerMap (mapping # rest) processedData =
     (case processColumn L queries record headerMap mapping processedData of
        Inl err \<Rightarrow> Inl err
      | Inr processedData' \<Rightarrow> processRowLoop L queries record headerMap rest processedData')"

definition processRow ::
  "Lib \<Rightarrow> IngestionConfig \<Rightarrow> string list \<Rightarrow> (string \<rightharpoonup> nat) \<Rightarrow> Querier
     \<Rightarrow> failure + (string \<rightharpoonup> dyn_value)" where
  "processRow L config record headerMap queries =
     processRowLoop L queries record headerMap (ColumnMappings config) Map.empty"

subsection \<open>The pieces of Process\<close>

fun headerMapLoop ::
  "Lib \<Rightarrow> nat \<Rightarrow> string list \<Rightarrow> (string \<rightharpoonup> nat) \<Rightarrow> (string \<rightharpoonup> nat)" where
  "headerMapLoop L i [] headerMap = headerMap"
| "headerMapLoop L i (h # rest) headerMap =
     headerMapLoop L (Suc i) rest (headerMap(TrimSpace L h \<mapsto> i))"

text \<open>The fail-fast loop: the first mapping whose header the file lacks.\<close>

fun missingHeader :: "(string \<rightharpoonup> nat) \<Rightarrow> ColumnMapping list \<Rightarrow> string option" where
  "missingHeader headerMap [] = None"
| "missingHeader headerMap (mapping # rest) =
     (case headerMap (CSVHeader mapping) of
        None \<Rightarrow> Some (CSVHeader mapping)
      | Some _ \<Rightarrow> missingHeader headerMap rest)"

text \<open>\<open>mergeColumnIndex\<close>: -1, or the index of the first merge target found in the header map.\<close>

fun mergeColumnIndexLoop :: "(string \<rightharpoonup> nat) \<Rightarrow> ColumnMapping list \<Rightarrow> int" where
  "mergeColumnIndexLoop headerMap [] = - 1"
| "mergeColumnIndexLoop headerMap (mapping # rest) =
     (if MergeExcessFields mapping
      then (case headerMap (CSVHeader mapping) of
              Some idx \<Rightarrow> int idx
            | None \<Rightarrow> mergeColumnIndexLoop headerMap rest)
      else mergeColumnIndexLoop headerMap rest)"

fun scopeJSONFieldLoop :: "string \<Rightarrow> ColumnMapping list \<Rightarrow> string" where
  "scopeJSONFieldLoop scopeField [] = []"
| "scopeJSONFieldLoop scopeField (mapping # rest) =
     (if CSVHeader mapping = scopeField then JSONField mapping
      else scopeJSONFieldLoop scopeField rest)"

text \<open>
  The repair at the head of the record loop: the record the rest of the body works on,
  or \<open>None\<close> if a slice expression panics.
\<close>

definition repairRecord :: "nat \<Rightarrow> int \<Rightarrow> string list \<Rightarrow> string list option" where
  "repairRecord numHeaders mergeColumnIndex record =
     (if length record > numHeaders \<and> mergeColumnIndex \<noteq> - 1 then
        (let numExtraFields = int (length record) - int numHeaders;
             endOfMergeIndex = mergeColumnIndex + numExtraFields
         in case slice record mergeColumnIndex (endOfMergeIndex + 1) of
              None \<Rightarrow> None
            | Some fieldsToMerge \<Rightarrow>
                (let rejoinedValue = Join fieldsToMerge '','' in
                 case slice record 0 mergeColumnIndex of
                   None \<Rightarrow> None
                 | Some front \<Rightarrow>
                     (case slice record (endOfMergeIndex + 1) (int (length record)) of
                        None \<Rightarrow> None
                      | Some back \<Rightarrow> Some (front @ [rejoinedValue] @ back))))
      else Some record)"

text \<open>The text handed to the embedder: the source columns present, each followed by a space.\<close>

fun textToEmbedLoop :: "Lib \<Rightarrow> (string \<rightharpoonup> dyn_value) \<Rightarrow> string list \<Rightarrow> string" where
  "textToEmbedLoop L processedData [] = []"
| "textToEmbedLoop L processedData (colName # rest) =
     (case processedData colName of
        Some val \<Rightarrow> Sprintv L val @ '' '' @ textToEmbedLoop L processedData rest
      | None \<Rightarrow> textToEmbedLoop L processedData rest)"

text \<open>
  The loop over the business key fields: \<open>Inl field\<close> is the \<open>continue RecordLoop\<close> at the
  first field that is missing or nil, \<open>Inr\<close> the parts collected.
\<close>

fun businessKeyLoop ::
  "Lib \<Rightarrow> (string \<rightharpoonup> dyn_value) \<Rightarrow> string list \<Rightarrow> string list \<Rightarrow> string + string list" where
  "businessKeyLoop L processedData [] businessKeyParts = Inr businessKeyParts"
| "businessKeyLoop L processedData (field # rest) businessKeyParts =
     (case processedData field of
        None \<Rightarrow> Inl field
      | Some VNil \<Rightarrow> Inl field
      | Some val \<Rightarrow> businessKeyLoop L processedData rest (businessKeyParts @ [Sprintv L val]))"

text \<open>
  The embedding block: the vector of the row (empty when none is computed), or \<open>Inl\<close>
  with the embedder's error.
\<close>

definition embedRow ::
  "Lib \<Rightarrow> IngestionConfig \<Rightarrow> EmbedderFunc option \<Rightarrow> (string \<rightharpoonup> dyn_value) \<Rightarrow> string + 32 word list" where
  "embedRow L config embedder processedData =
     (case (EmbedContent config, embedder) of
        (Some embedContent, Some embedderFunc) \<Rightarrow>
          (let textToEmbed = TrimSpace L (textToEmbedLoop L processedData (SourceColumns embedContent))
           in if textToEmbed \<noteq> [] then embedderFunc textToEmbed else Inr [])
      | _ \<Rightarrow> Inr [])"

definition appendTriage :: "ProcessingResult \<Rightarrow> string list \<Rightarrow> string list \<Rightarrow> failure \<Rightarrow> ProcessingResult" where
  "appendTriage result record headers reason =
     result\<lparr>TriageRows := TriageRows result @
       [\<lparr>OriginalRecord = createOriginalRecordMap record headers, FailureReason = reason\<rparr>]\<rparr>"

text \<open>
  The body of \<open>RecordLoop\<close> for the record at index \<open>i\<close>: the result after it, each
  \<open>continue\<close> being a return. \<open>Inl\<close> is a panic, which ends the whole run.
\<close>

definition recordBody ::
  "Lib \<Rightarrow> IngestionConfig \<Rightarrow> Querier \<Rightarrow> EmbedderFunc option \<Rightarrow> string list \<Rightarrow> (string \<rightharpoonup> nat)
     \<Rightarrow> int \<Rightarrow> string \<Rightarrow> nat \<Rightarrow> string list \<Rightarrow> ProcessingResult
     \<Rightarrow> process_error + ProcessingResult" where
  "recordBody L config queries embedder headers headerMap mergeColumnIndex scopeJSONField i record0 result =
     (let numHeaders = length headers in
      case repairRecord numHeaders mergeColumnIndex record0 of
        None \<Rightarrow> Inl SliceBoundsPanic
      | Some record \<Rightarrow>
          if length record \<noteq> numHeaders
          then Inr (appendTriage result record headers (RowShape (length record) numHeaders))
          else if isRowBlank L record
          then Inr (result\<lparr>BlankRowsDiscarded := BlankRowsDiscarded result + 1\<rparr>)
          else
            (case processRow L config record headerMap queries of
               Inl err \<Rightarrow> Inr (appendTriage result record headers err)
             | Inr processedData \<Rightarrow>
                 (case embedRow L config embedder processedData of
                    Inl err \<Rightarrow> Inr (appendTriage result record headers (EmbeddingFailed (i + 2) err))
                  | Inr embedding \<Rightarrow>
                      (case MarshalError L processedData of
                         Some err \<Rightarrow>
                           Inr (appendTriage result record headers (MarshalFailed (i + 2) err))
                       | None \<Rightarrow>
                           (let customPropsJSON = processedData in
                            case processedData scopeJSONField of
                              None \<Rightarrow>
                                Inr (appendTriage result record headers (ScopeMissing scopeJSONField))
                            | Some VNil \<Rightarrow>
                                Inr (appendTriage result record headers (ScopeMissing scopeJSONField))
                            | Some (VString scopeString) \<Rightarrow>
                                (case businessKeyLoop L processedData (IngestionConfig.BusinessKey config) [] of
                                   Inl field \<Rightarrow>
                                     Inr (appendTriage result record headers (BusinessKeyMissing field))
                                 | Inr businessKeyParts \<Rightarrow>
                                     Inr (result\<lparr>SuccessfulItems := SuccessfulItems result @
                                       [\<lparr>ItemType = IngestionConfig.ItemType config,
                                         Scope = Some scopeString,
                                         BusinessKey = Some (Join businessKeyParts ''-''),
                                         Status = ''active'',
                                         CustomProperties = customPropsJSON,
                                         Embedding = embedding\<rparr>]\<rparr>))
                            | Some _ \<Rightarrow>
                                Inr (appendTriage result record headers (ScopeNotString scopeJSONField)))))))"

fun RecordLoop ::
  "Lib \<Rightarrow> IngestionConfig \<Rightarrow> Querier \<Rightarrow> EmbedderFunc option \<Rightarrow> string list \<Rightarrow> (string \<rightharpoonup> nat)
     \<Rightarrow> int \<Rightarrow> string \<Rightarrow> nat \<Rightarrow> string list list \<Rightarrow> ProcessingResult
     \<Rightarrow> process_error + ProcessingResult" where
  "RecordLoop L config queries embedder headers headerMap mergeColumnIndex scopeJSONField i [] result =
     Inr result"
| "RecordLoop L config queries embedder headers headerMap mergeColumnIndex scopeJSONField i (record # rest) result =
     (case recordBody L config queries embedder headers headerMap mergeColumnIndex scopeJSONField
             i record result of
        Inl e \<Rightarrow> Inl e
      | Inr result' \<Rightarrow>
          RecordLoop L config queries embedder headers headerMap mergeColumnIndex scopeJSONField
            (Suc i) rest result')"

definition Process ::
  "Lib \<Rightarrow> IngestionConfig \<Rightarrow> CSVFile \<Rightarrow> Querier \<Rightarrow> EmbedderFunc option
     \<Rightarrow> process_error + ProcessingResult" where
  "Process L config file queries embedder =
     (case Read file of
        Inl err \<Rightarrow> Inl (HeaderRowError err)
      | Inr headers \<Rightarrow>
          (let headerMap = headerMapLoop L 0 headers Map.empty in
           case missingHeader headerMap (ColumnMappings config) of
             Some h \<Rightarrow> Inl (MissingRequiredHeader h)
           | None \<Rightarrow>
               (let mergeColumnIndex = mergeColumnIndexLoop headerMap (ColumnMappings config) in
                case ReadAll file of
                  Inl err \<Rightarrow> Inl (ReadAllError err)
                | Inr allRecords \<Rightarrow>
                    (let scopeJSONField =
                           scopeJSONFieldLoop (ScopeField config) (ColumnMappings config)
                     in if scopeJSONField = [] then Inl (NoScopeMapping (ScopeField config))
                        else RecordLoop L config queries embedder headers headerMap
                               mergeColumnIndex scopeJSONField 0 allRecords
                               \<lparr>SuccessfulItems = [], TriageRows = [], BlankRowsDiscarded = 0\<rparr>))))"

section \<open>Staging loader (saveSuccessfulItems, query UpsertItems)\<close>

text \<open>
  A row of table \<open>items\<close>, and of the temporary table created \<open>LIKE items\<close>. A nullable
  column is an option; a time stamp is a number; the surrogate \<open>id\<close> is left out. The
  table is the list of its rows.
\<close>

type_synonym timestamp = nat

record ItemRow =
  item_type :: string
  scope :: "string option"
  business_key :: "string option"
  status :: string
  custom_properties :: "string \<rightharpoonup> dyn_value"
  embedding :: "32 word list option"
  created_at :: timestamp
  updated_at :: timestamp

text \<open>
  The database server, outside the repository. \<open>Varchar100\<close> is the input function of a
  \<open>VARCHAR(100)\<close> column: the text it stores for the bytes sent, or its error.
  \<open>VectorElementsError\<close> is the check the vector type makes of the components of a
  vector of the right dimension. The other fields make a step fail for a reason outside
  the model (a lost connection): \<open>Some err\<close> in the field of a step makes that step fail.
\<close>

record SaveFaults =
  Varchar100 :: "string \<Rightarrow> string + string"
  VectorElementsError :: "32 word list \<Rightarrow> string option"
  BeginError :: "string option"
  CreateTempItemsStagingTableError :: "string option"
  CopyFromError :: "string option"
  UpsertItemsError :: "string option"
  CommitError :: "string option"

datatype save_error =
    BeginFailed string
  | CreateTempFailed string
  | CopyFailed string
  | UpsertFailed string
  | CommitFailed string

definition maxEmbeddingDims :: nat where
  "maxEmbeddingDims = 384"

text \<open>
  The row that the callback of \<open>CopyFromSlice\<close> sends for one item; the columns it does
  not name take their defaults.
\<close>

definition copyFromRow :: "timestamp \<Rightarrow> Item \<Rightarrow> ItemRow" where
  "copyFromRow now item =
     (let embeddingSlice = Embedding item;
          embeddingValue =
            (if length embeddingSlice > 0
             then (if length embeddingSlice > maxEmbeddingDims then None else Some (Embedding item))
             else None)
      in \<lparr>item_type = ItemType item, scope = Scope item, business_key = BusinessKey item,
          status = Status item, custom_properties = CustomProperties item,
          embedding = embeddingValue, created_at = now, updated_at = now\<rparr>)"

text \<open>
  The column types of the migrations: the labels of the enums \<open>item_type\<close> and
  \<open>item_status\<close>, \<open>VARCHAR(100)\<close> for scope and business key, \<open>vector(384)\<close> for the
  embedding. \<open>stageRow\<close> is what the staging table holds for a row sent to it, or the
  error of the first column that refuses its value; a null passes every nullable column.
\<close>

definition item_type_labels :: "string list" where
  "item_type_labels = [''KNOWLEDGE_CHUNK'']"

definition item_status_labels :: "string list" where
  "item_status_labels = [''active'', ''inactive'', ''archived'']"

definition vectorDims :: nat where
  "vectorDims = 384"

definition varcharColumn :: "SaveFaults \<Rightarrow> string option \<Rightarrow> string + string option" where
  "varcharColumn F v =
     (case v of
        None \<Rightarrow> Inr None
      | Some s \<Rightarrow> (case Varchar100 F s of Inl err \<Rightarrow> Inl err | Inr stored \<Rightarrow> Inr (Some stored)))"

definition vectorColumn :: "SaveFaults \<Rightarrow> 32 word list option \<Rightarrow> string option" where
  "vectorColumn F v =
     (case v of
        None \<Rightarrow> None
      | Some x \<Rightarrow>
          if length x \<noteq> vectorDims then Some ''expected 384 dimensions''
          else VectorElementsError F x)"

definition stageRow :: "SaveFaults \<Rightarrow> ItemRow \<Rightarrow> string + ItemRow" where
  "stageRow F row =
     (if item_type row \<notin> set item_type_labels
      then Inl ''invalid input value for enum item_type''
      else
        (case varcharColumn F (scope row) of
           Inl err \<Rightarrow> Inl err
         | Inr storedScope \<Rightarrow>
        (case varcharColumn F (business_key row) of
           Inl err \<Rightarrow> Inl err
         | Inr storedKey \<Rightarrow>
             if status row \<notin> set item_status_labels
             then Inl ''invalid input value for enum item_status''
             else
               (case vectorColumn F (embedding row) of
                  Some err \<Rightarrow> Inl err
                | None \<Rightarrow> Inr (row\<lparr>scope := storedScope, business_key := storedKey\<rparr>)))))"

text \<open>\<open>CopyFrom\<close>: the rows in order; the first row refused fails the copy.\<close>

fun stageRows :: "SaveFaults \<Rightarrow> ItemRow list \<Rightarrow> string + ItemRow list" where
  "stageRows F [] = Inr []"
| "stageRows F (row # rest) =
     (case stageRow F row of
        Inl err \<Rightarrow> Inl err
      | Inr staged \<Rightarrow>
          (case stageRows F rest of
             Inl err \<Rightarrow> Inl err
           | Inr stagedRest \<Rightarrow> Inr (staged # stagedRest)))"

definition CopyFrom :: "SaveFaults \<Rightarrow> ItemRow list \<Rightarrow> string + ItemRow list" where
  "CopyFrom F rows =
     (case CopyFromError F of
        Some err \<Rightarrow> Inl err
      | None \<Rightarrow> stageRows F rows)"

text \<open>
  The statement \<open>UpsertItems\<close>. \<open>excluded\<close> is the row proposed for insertion from a
  staged row: the select list takes five columns from staging and the literal
  \<open>'active'\<close> for the status. Two rows conflict on the unique constraint
  \<open>(item_type, business_key)\<close> when both columns are equal and the key is not null.
  \<open>onConflict\<close> is the \<open>DO UPDATE SET\<close> list; \<open>||\<close> on two JSON objects keeps the keys of
  both and takes the right-hand value for a key of both.
\<close>

definition excluded :: "timestamp \<Rightarrow> ItemRow \<Rightarrow> ItemRow" where
  "excluded now s =
     \<lparr>item_type = item_type s, scope = scope s, business_key = business_key s,
      status = ''active'', custom_properties = custom_properties s,
      embedding = embedding s, created_at = now, updated_at = now\<rparr>"

definition conflicts :: "ItemRow \<Rightarrow> ItemRow \<Rightarrow> bool" where
  "conflicts r s =
     (item_type r = item_type s \<and> business_key s \<noteq> None \<and> business_key r = business_key s)"

definition onConflict :: "timestamp \<Rightarrow> ItemRow \<Rightarrow> ItemRow \<Rightarrow> ItemRow" where
  "onConflict now r s =
     r\<lparr>status := status (excluded now s),
       scope := scope (excluded now s),
       custom_properties := custom_properties r ++ custom_properties (excluded now s),
       embedding := embedding (excluded now s),
       updated_at := now\<rparr>"

definition upsertRow :: "timestamp \<Rightarrow> ItemRow \<Rightarrow> ItemRow list \<Rightarrow> ItemRow list" where
  "upsertRow now s items =
     (if \<exists>r\<in>set items. conflicts r s
      then map (\<lambda>r. if conflicts r s then onConflict now r s else r) items
      else items @ [excluded now s])"

text \<open>
  The staged rows one after the other. \<open>touched\<close> holds the keys this statement has
  already inserted or updated: a second staged row with such a key makes the whole
  statement fail (the command cannot affect a row a second time).
\<close>

fun upsertLoop ::
  "timestamp \<Rightarrow> ItemRow list \<Rightarrow> (string \<times> string) list \<Rightarrow> ItemRow list
     \<Rightarrow> string + ItemRow list" where
  "upsertLoop now [] touched items = Inr items"
| "upsertLoop now (s # rest) touched items =
     (case business_key s of
        None \<Rightarrow> upsertLoop now rest touched (items @ [excluded now s])
      | Some k \<Rightarrow>
          if (item_type s, k) \<in> set touched
          then Inl ''ON CONFLICT DO UPDATE command cannot affect row a second time''
          else upsertLoop now rest ((item_type s, k) # touched) (upsertRow now s items))"

definition UpsertItems ::
  "SaveFaults \<Rightarrow> timestamp \<Rightarrow> ItemRow list \<Rightarrow> ItemRow list \<Rightarrow> string + (int \<times> ItemRow list)" where
  "UpsertItems F now staging items =
     (case UpsertItemsError F of
        Some err \<Rightarrow> Inl err
      | None \<Rightarrow>
          (case upsertLoop now staging [] items of
             Inl err \<Rightarrow> Inl err
           | Inr items' \<Rightarrow> Inr (int (length staging), items')))"

text \<open>
  \<open>saveSuccessfulItems\<close> on the table \<open>items\<close>: the result and the table afterwards. Every
  return before the commit leaves the deferred rollback to undo the transaction, so the
  table is the one before the call.
\<close>

definition saveSuccessfulItems ::
  "SaveFaults \<Rightarrow> timestamp \<Rightarrow> ItemRow list \<Rightarrow> Item list \<Rightarrow> (save_error + int) \<times> ItemRow list" where
  "saveSuccessfulItems F now db items =
     (case BeginError F of
        Some err \<Rightarrow> (Inl (BeginFailed err), db)
      | None \<Rightarrow>
     (case CreateTempItemsStagingTableError F of
        Some err \<Rightarrow> (Inl (CreateTempFailed err), db)
      | None \<Rightarrow>
     (case CopyFrom F (map (copyFromRow now) items) of
        Inl err \<Rightarrow> (Inl (CopyFailed err), db)
      | Inr staging \<Rightarrow>
     (case UpsertItems F now staging db of
        Inl err \<Rightarrow> (Inl (UpsertFailed err), db)
      | Inr (rowsAffected, db') \<Rightarrow>
     (case CommitError F of
        Some err \<Rightarrow> (Inl (CommitFailed err), db)
      | None \<Rightarrow> (Inr rowsAffected, db'))))))"

section \<open>Triage correction (handler updateIngestionError and its queries)\<close>

text \<open>
  Rows of \<open>ingestion_jobs\<close> and \<open>ingestion_errors\<close>; both tables have a UUID primary key
  and are maps from it. JSON columns and the raw message of the request are kept as
  text. \<open>resolved_rows_count\<close> is a nullable 32-bit \<open>INTEGER\<close> with default 0.
\<close>

type_synonym uuid = string

record JobRow =
  source_type :: string
  item_type :: string
  status :: string
  error_details :: "string option"
  total_rows :: "int option"
  processed_rows :: "int option"
  initial_error_count :: "int option"
  resolved_rows_count :: "int option"

record ErrorRow =
  job_id :: uuid
  timestamp :: timestamp
  original_row_data :: string
  reason_for_failure :: string
  status :: string
  corrected_data :: "string option"
  resolved_at :: "timestamp option"
  resolved_by :: "int option"

record TriageDB =
  ingestion_jobs :: "uuid \<rightharpoonup> JobRow"
  ingestion_errors :: "uuid \<rightharpoonup> ErrorRow"

text \<open>
  The request as the handler reads it: the path parameter and the outcome of binding the
  body to a map of raw messages. \<open>ParseUUID\<close> is the library parser; the other fields
  make a database step fail for a reason outside the model.
\<close>

record Request =
  Param_errorId :: string
  Bind :: "string + (string \<rightharpoonup> string)"

record TriageEnv =
  ParseUUID :: "string \<Rightarrow> uuid option"
  BeginTxError :: "string option"
  UpdateError :: "string option"
  IncrementError :: "string option"
  TxCommitError :: "string option"

datatype response =
    HTTPError nat string
  | JSON nat ErrorRow

text \<open>
  Query \<open>UpdateIngestionErrorWithCorrection\<close>, a \<open>:one\<close> query: \<open>Inl\<close> when no row has
  the id (no rows in the result set), else the updated row and the tables.
\<close>

definition UpdateIngestionErrorWithCorrection ::
  "timestamp \<Rightarrow> uuid \<Rightarrow> string \<Rightarrow> int option \<Rightarrow> TriageDB \<Rightarrow> string + (ErrorRow \<times> TriageDB)" where
  "UpdateIngestionErrorWithCorrection now errorID correctedData resolvedBy db =
     (case ingestion_errors db errorID of
        None \<Rightarrow> Inl ''no rows in result set''
      | Some row \<Rightarrow>
          (let row' = row\<lparr>corrected_data := Some correctedData,
                         status := ''pending_revalidation'',
                         resolved_by := resolvedBy,
                         resolved_at := Some now\<rparr>
           in Inr (row', db\<lparr>ingestion_errors := (ingestion_errors db)(errorID \<mapsto> row')\<rparr>)))"

text \<open>
  Query \<open>IncrementIngestionJobResolvedRows\<close>, an \<open>:exec\<close> query: it updates the job whose
  id the subquery finds, if any. Null plus one is null; a sum beyond 32 bits is an error.
\<close>

definition IncrementIngestionJobResolvedRows :: "uuid \<Rightarrow> TriageDB \<Rightarrow> string + TriageDB" where
  "IncrementIngestionJobResolvedRows errorID db =
     (case ingestion_errors db errorID of
        None \<Rightarrow> Inr db
      | Some e \<Rightarrow>
          (case ingestion_jobs db (job_id e) of
             None \<Rightarrow> Inr db
           | Some j \<Rightarrow>
               (case resolved_rows_count j of
                  None \<Rightarrow> Inr db
                | Some n \<Rightarrow>
                    if n + 1 > 2147483647 then Inl ''integer out of range''
                    else Inr (db\<lparr>ingestion_jobs :=
                                (ingestion_jobs db)(job_id e \<mapsto> j\<lparr>resolved_rows_count := Some (n + 1)\<rparr>)\<rparr>))))"

text \<open>
  The handler: the response and the tables afterwards. Both queries run on the
  transaction; a return before the commit rolls it back, so the tables are unchanged.
\<close>

definition updateIngestionError ::
  "TriageEnv \<Rightarrow> timestamp \<Rightarrow> TriageDB \<Rightarrow> Request \<Rightarrow> response \<times> TriageDB" where
  "updateIngestionError E now db c =
     (case ParseUUID E (Param_errorId c) of
        None \<Rightarrow> (HTTPError 400 ''invalid error ID format'', db)
      | Some errorID \<Rightarrow>
     (case Bind c of
        Inl err \<Rightarrow> (HTTPError 400 ''invalid request body'', db)
      | Inr requestBody \<Rightarrow>
     (case requestBody ''corrected_data'' of
        None \<Rightarrow> (HTTPError 400 ''missing corrected_data in request body'', db)
      | Some correctedData \<Rightarrow>
          (let placeholderUserID = 1;
               pgResolvedBy = Some placeholderUserID
           in
     (case BeginTxError E of
        Some err \<Rightarrow> (HTTPError 500 ''could not start transaction'', db)
      | None \<Rightarrow>
     (case (case UpdateError E of
              Some err \<Rightarrow> Inl err
            | None \<Rightarrow> UpdateIngestionErrorWithCorrection now errorID correctedData pgResolvedBy db) of
        Inl err \<Rightarrow> (HTTPError 500 ''failed to update ingestion error'', db)
      | Inr (updatedError, tx1) \<Rightarrow>
     (case (case IncrementError E of
              Some err \<Rightarrow> Inl err
            | None \<Rightarrow> IncrementIngestionJobResolvedRows errorID tx1) of
        Inl err \<Rightarrow> (HTTPError 500 ''failed to update job counters'', db)
      | Inr tx2 \<Rightarrow>
     (case TxCommitError E of
        Some err \<Rightarrow> (HTTPError 500 ''could not commit transaction'', db)
      | None \<Rightarrow> (JSON 200 updatedError, tx2)))))))))"

section \<open>Example inputs\<close>

text \<open>
  An instance of the library parameters for the examples, all of whose strings are
  ASCII: white space is trimmed and letters are raised as the library does on ASCII
  text (tab, line feed, vertical tab, form feed, carriage return, space; a to z);
  integers are parsed as an
  optional sign and decimal digits within 64 bits, decimals likewise with exponent 0; the
  examples use no dates and no regular expressions, and marshalling does not fail.
\<close>

definition isDigit :: "char \<Rightarrow> bool" where
  "isDigit c = ((48::nat) \<le> of_char c \<and> of_char c \<le> (57::nat))"

definition exampleParseInt :: "string \<Rightarrow> 64 word option" where
  "exampleParseInt s =
     (let neg = (s \<noteq> [] \<and> hd s = CHR ''-'');
          ds = (if s \<noteq> [] \<and> (hd s = CHR ''-'' \<or> hd s = CHR ''+'') then tl s else s)
      in if ds = [] \<or> \<not> list_all isDigit ds then None
         else (let n = int (fold (\<lambda>c a. a * 10 + (of_char c - 48)) ds (0::nat));
                   v = (if neg then - n else n)
               in if - (2 ^ 63) \<le> v \<and> v < 2 ^ 63 then Some (word_of_int v) else None))"

definition asciiSpace :: "char \<Rightarrow> bool" where
  "asciiSpace c = (c = CHR 0x09 \<or> c = CHR 0x0A \<or> c = CHR 0x0B \<or> c = CHR 0x0C \<or> c = CHR 0x0D
                \<or> c = CHR '' '')"

definition asciiTrimSpace :: "string \<Rightarrow> string" where
  "asciiTrimSpace s = rev (dropWhile asciiSpace (rev (dropWhile asciiSpace s)))"

definition asciiUpperChar :: "char \<Rightarrow> char" where
  "asciiUpperChar c =
     (if of_char c \<ge> (97::nat) \<and> of_char c \<le> (122::nat) then char_of (of_char c - (32::nat)) else c)"

definition asciiToUpper :: "string \<Rightarrow> string" where
  "asciiToUpper s = map asciiUpperChar s"

definition exampleLib :: Lib where
  "exampleLib =
     \<lparr>TrimSpace = asciiTrimSpace,
      ToUpper = asciiToUpper,
      ParseInt = exampleParseInt,
      NewFromString = (\<lambda>s. map_option (\<lambda>w. Decimal (sint w) 0) (exampleParseInt s)),
      ParseInLocation = (\<lambda>layout s. None),
      Compile = (\<lambda>pattern. None),
      DecimalString = (\<lambda>d. FormatInt (dvalue d)),
      TimeString = (\<lambda>t. FormatInt (tsec t)),
      MarshalError = (\<lambda>m. None),
      RangeOrder = [''required'', ''enum'', ''regex'', ''exists_in_items'']\<rparr>"

definition exampleQuerier :: Querier where
  "exampleQuerier = \<lparr>ItemExistsByBusinessKey = (\<lambda>itemType businessKey. Inr 1)\<rparr>"

definition noRule :: ValidationRule where
  "noRule = \<lparr>Required = False, AllowZero = None, Enum = [], Regex = [], ExistsInItems = []\<rparr>"

definition requiredRule :: ValidationRule where
  "requiredRule = noRule\<lparr>Required := True\<rparr>"

text \<open>
  The end-to-end scenario: header \<open>id,status,email\<close>, one good row, one row without id,
  one row whose status is outside the enum, one blank row.
\<close>

definition scenarioConfig :: IngestionConfig where
  "scenarioConfig =
     \<lparr>ReportType = ''ROSTER'', ItemType = ''KNOWLEDGE_CHUNK'', ScopeField = ''status'',
      BusinessKey = [''id''], EmbedContent = None,
      ColumnMappings =
        [\<lparr>CSVHeader = ''id'', JSONField = ''id'', MergeExcessFields = False, Attempts = [],
          Validation = requiredRule\<rparr>,
         \<lparr>CSVHeader = ''status'', JSONField = ''status'', MergeExcessFields = False, Attempts = [],
          Validation = requiredRule\<lparr>Enum := [''ACTIVE'', ''INACTIVE'']\<rparr>\<rparr>,
         \<lparr>CSVHeader = ''email'', JSONField = ''email'', MergeExcessFields = False, Attempts = [],
          Validation = noRule\<rparr>]\<rparr>"

definition scenarioRecords :: "string list list" where
  "scenarioRecords =
     [[''1'', ''ACTIVE'', ''a@x.com''],
      ['''', ''ACTIVE'', ''b@x.com''],
      [''2'', ''PENDING'', ''c@x.com''],
      ['''', '''', '''']]"

definition scenarioFile :: CSVFile where
  "scenarioFile = \<lparr>Read = Inr [''id'', ''status'', ''email''], ReadAll = Inr scenarioRecords\<rparr>"




text \<open>
  A file whose \<open>notes\<close> column is the merge target, and a row in which an unescaped
  comma has split that column into three fields.
\<close>

definition notesMapping :: ColumnMapping where
  "notesMapping =
     \<lparr>CSVHeader = ''notes'', JSONField = ''notes'', MergeExcessFields = True, Attempts = [],
      Validation = noRule\<rparr>"

definition mergeConfig :: IngestionConfig where
  "mergeConfig =
     \<lparr>ReportType = ''CLAIMS'', ItemType = ''KNOWLEDGE_CHUNK'', ScopeField = ''id'',
      BusinessKey = [''id''], EmbedContent = None,
      ColumnMappings =
        [\<lparr>CSVHeader = ''id'', JSONField = ''id'', MergeExcessFields = False, Attempts = [],
          Validation = requiredRule\<rparr>,
         notesMapping]\<rparr>"

definition mergeHeaders :: "string list" where
  "mergeHeaders = [''id'', ''notes'', ''amount'']"

definition splitRecord :: "string list" where
  "splitRecord = [''7'', ''wet'', ''cold'', ''late'', ''12'']"

text \<open>
  A mapping whose first attempt parses an integer and whose second attempt trims and
  upper-cases; a mapping both of whose attempts parse a number; a mapping without attempts.
\<close>

definition codeMapping :: ColumnMapping where
  "codeMapping =
     \<lparr>CSVHeader = ''code'', JSONField = ''code'', MergeExcessFields = False,
      Attempts = [\<lparr>Transforms = [''to_integer'']\<rparr>,
                  \<lparr>Transforms = [''trim_space'', ''to_uppercase'']\<rparr>],
      Validation = requiredRule\<rparr>"

definition numberMapping :: ColumnMapping where
  "numberMapping =
     \<lparr>CSVHeader = ''code'', JSONField = ''code'', MergeExcessFields = False,
      Attempts = [\<lparr>Transforms = [''to_integer'']\<rparr>, \<lparr>Transforms = [''to_decimal'']\<rparr>],
      Validation = requiredRule\<rparr>"

definition plainMapping :: ColumnMapping where
  "plainMapping =
     \<lparr>CSVHeader = ''code'', JSONField = ''code'', MergeExcessFields = False, Attempts = [],
      Validation = requiredRule\<rparr>"

definition idMapping :: ColumnMapping where
  "idMapping =
     \<lparr>CSVHeader = ''id'', JSONField = ''id'', MergeExcessFields = False, Attempts = [],
      Validation = requiredRule\<rparr>"

text \<open>A configuration of two columns, \<open>id\<close> and the given mapping of \<open>code\<close>, and a row for it.\<close>

definition attemptsConfig :: "ColumnMapping \<Rightarrow> IngestionConfig" where
  "attemptsConfig m =
     \<lparr>ReportType = ''CODES'', ItemType = ''KNOWLEDGE_CHUNK'', ScopeField = ''id'',
      BusinessKey = [''id''], EmbedContent = None, ColumnMappings = [idMapping, m]\<rparr>"

definition codeHeaderMap :: "string \<rightharpoonup> nat" where
  "codeHeaderMap = headerMapLoop exampleLib 0 [''id'', ''code''] Map.empty"

definition codeRecord :: "string list" where
  "codeRecord = [''x'', '' abc '']"

text \<open>
  Mappings that name a transform, \<open>normalize_id\<close>, which the registry does not hold: as
  the only attempt, and as the first of two attempts.
\<close>

definition unknownOnlyMapping :: ColumnMapping where
  "unknownOnlyMapping =
     \<lparr>CSVHeader = ''code'', JSONField = ''code'', MergeExcessFields = False,
      Attempts = [\<lparr>Transforms = [''trim_space'', ''normalize_id'']\<rparr>],
      Validation = requiredRule\<rparr>"

definition unknownFirstMapping :: ColumnMapping where
  "unknownFirstMapping =
     \<lparr>CSVHeader = ''code'', JSONField = ''code'', MergeExcessFields = False,
      Attempts = [\<lparr>Transforms = [''trim_space'', ''normalize_id'']\<rparr>,
                  \<lparr>Transforms = [''trim_space'']\<rparr>],
      Validation = requiredRule\<rparr>"

definition unknownConfig :: IngestionConfig where
  "unknownConfig = attemptsConfig unknownFirstMapping"

definition unknownFile :: CSVFile where
  "unknownFile = \<lparr>Read = Inr [''id'', ''code''], ReadAll = Inr [ [''x'', '' 42 ''] ]\<rparr>"





text \<open>The rows of \<open>items\<close> that hold a given key.\<close>

definition hasKey :: "string \<Rightarrow> string \<Rightarrow> ItemRow \<Rightarrow> bool" where
  "hasKey t k r = (ItemRow.item_type r = t \<and> business_key r = Some k)"



definition secondPayload :: Item where
  "secondPayload =
     \<lparr>ItemType = ''KNOWLEDGE_CHUNK'', Scope = Some ''west'', BusinessKey = Some ''P-1'',
      Status = ''active'',
      CustomProperties = [''city'' \<mapsto> VString ''Rome'', ''age'' \<mapsto> VInt64 41],
      Embedding = replicate 384 7\<rparr>"


definition shortVectorPayload :: Item where
  "shortVectorPayload = secondPayload\<lparr>Embedding := [1, 2, 3]\<rparr>"


text \<open>
  A job with one triage row, a correction request for that row, and a run of the handler
  in which no step fails.
\<close>

definition triageDB :: TriageDB where
  "triageDB =
     \<lparr>ingestion_jobs =
        [''job-1'' \<mapsto> \<lparr>source_type = ''csv'', item_type = ''KNOWLEDGE_CHUNK'',
                        status = ''COMPLETE_WITH_ISSUES'', error_details = None, total_rows = None,
                        processed_rows = Some 1, initial_error_count = Some 2,
                        resolved_rows_count = Some 0\<rparr>],
      ingestion_errors =
        [''err-1'' \<mapsto> \<lparr>job_id = ''job-1'', timestamp = 5, original_row_data = ''{}'',
                        reason_for_failure = ''is a required field'', status = ''new'',
                        corrected_data = None, resolved_at = None, resolved_by = None\<rparr>]\<rparr>"

definition correctionRequest :: Request where
  "correctionRequest =
     \<lparr>Param_errorId = ''err-1'', Bind = Inr [''corrected_data'' \<mapsto> ''[9]'']\<rparr>"

definition noTriageFaults :: TriageEnv where
  "noTriageFaults =
     \<lparr>ParseUUID = Some, BeginTxError = None, UpdateError = None, IncrementError = None,
      TxCommitError = None\<rparr>"

section \<open>Validation of a configuration\<close>

lemma dom_definedHeadersLoop:
  "dom (definedHeadersLoop ms acc) = dom acc \<union> CSVHeader ` set ms"
  by (induction ms arbitrary: acc) auto

text \<open>
  Claim C3. \<open>Validate\<close> returns an error exactly when report_type, item_type or
  scope_field is empty, the business_key list is empty, the column_mappings list is
  empty, or scope_field is the csv_header of no column mapping; otherwise it returns nil.
\<close>

theorem Validate_rejects_iff:
  "Validate c \<noteq> None \<longleftrightarrow>
     (ReportType c = [] \<or> IngestionConfig.ItemType c = [] \<or> ScopeField c = [] \<or> IngestionConfig.BusinessKey c = []
      \<or> ColumnMappings c = [] \<or> ScopeField c \<notin> CSVHeader ` set (ColumnMappings c))"
proof -
  have "definedHeadersLoop (ColumnMappings c) Map.empty (ScopeField c) = None
          \<longleftrightarrow> ScopeField c \<notin> CSVHeader ` set (ColumnMappings c)"
    using dom_definedHeadersLoop [of "ColumnMappings c" Map.empty] by (auto simp: domIff)
  then show ?thesis
    by (auto simp: Validate_def Let_def split: option.splits)
qed

theorem Validate_rejects_iff_witness:
  "Validate scenarioConfig = None
   \<and> Validate (scenarioConfig\<lparr>ScopeField := ''region''\<rparr>) = Some (ScopeFieldNotDefined ''region'')"
proof -
  have a: "\<not> (ReportType scenarioConfig = [] \<or> IngestionConfig.ItemType scenarioConfig = []
             \<or> ScopeField scenarioConfig = [] \<or> IngestionConfig.BusinessKey scenarioConfig = []
             \<or> ColumnMappings scenarioConfig = []
             \<or> ScopeField scenarioConfig \<notin> CSVHeader ` set (ColumnMappings scenarioConfig))"
    by (simp add: scenarioConfig_def)
  have b: "Validate (scenarioConfig\<lparr>ScopeField := ''region''\<rparr>) = Some (ScopeFieldNotDefined ''region'')"
    by code_simp
  from a Validate_rejects_iff [of scenarioConfig] b show ?thesis by simp
qed

section \<open>Row classification in Process\<close>

lemma recordBody_outcome:
  assumes "recordBody L config queries embedder headers headerMap mci sjf i record0 result = Inr result'"
  shows "(\<exists>item. SuccessfulItems result' = SuccessfulItems result @ [item]
            \<and> TriageRows result' = TriageRows result
            \<and> BlankRowsDiscarded result' = BlankRowsDiscarded result)
       \<or> (\<exists>row. SuccessfulItems result' = SuccessfulItems result
            \<and> TriageRows result' = TriageRows result @ [row]
            \<and> BlankRowsDiscarded result' = BlankRowsDiscarded result)
       \<or> (SuccessfulItems result' = SuccessfulItems result
            \<and> TriageRows result' = TriageRows result
            \<and> BlankRowsDiscarded result' = BlankRowsDiscarded result + 1)"
  using assms
  by (auto simp: recordBody_def appendTriage_def Let_def
           split: option.splits sum.splits dyn_value.splits if_splits)

lemma recordBody_total:
  assumes "recordBody L config queries embedder headers headerMap mci sjf i record0 result = Inr result'"
  shows "length (SuccessfulItems result') + length (TriageRows result') + BlankRowsDiscarded result'
           = Suc (length (SuccessfulItems result) + length (TriageRows result)
                  + BlankRowsDiscarded result)"
  using recordBody_outcome [OF assms] by auto

lemma RecordLoop_total:
  "RecordLoop L config queries embedder headers headerMap mci sjf i records result = Inr result'
     \<Longrightarrow> length (SuccessfulItems result') + length (TriageRows result') + BlankRowsDiscarded result'
           = length (SuccessfulItems result) + length (TriageRows result)
               + BlankRowsDiscarded result + length records"
proof (induction records arbitrary: i result)
  case Nil
  then show ?case by simp
next
  case (Cons r rs)
  then obtain mid where
    body: "recordBody L config queries embedder headers headerMap mci sjf i r result = Inr mid" and
    rest: "RecordLoop L config queries embedder headers headerMap mci sjf (Suc i) rs mid = Inr result'"
    by (auto split: sum.splits)
  from Cons.IH [OF rest] recordBody_total [OF body] show ?case by simp
qed

text \<open>
  Claim C1. When \<open>Process\<close> returns a result and no error, every data row the reader
  delivered has gone to exactly one of the successful items, the triage rows and the
  count of discarded blank rows (lemma \<open>recordBody_outcome\<close>), so the number of data rows
  is the sum of the three.
\<close>

theorem Process_row_count:
  assumes "Process L config file queries embedder = Inr result"
    and "ReadAll file = Inr allRecords"
  shows "length allRecords =
           length (SuccessfulItems result) + length (TriageRows result) + BlankRowsDiscarded result"
proof -
  from assms obtain headers headerMap mci sjf where
    "RecordLoop L config queries embedder headers headerMap mci sjf 0 allRecords
       \<lparr>SuccessfulItems = [], TriageRows = [], BlankRowsDiscarded = 0\<rparr> = Inr result"
    by (auto simp: Process_def Let_def split: sum.splits option.splits if_splits)
  from RecordLoop_total [OF this] show ?thesis by simp
qed

theorem Process_row_count_witness:
  "\<not> isl (Process exampleLib scenarioConfig scenarioFile exampleQuerier None)
   \<and> ReadAll scenarioFile = Inr scenarioRecords
   \<and> length scenarioRecords = 4
   \<and> length (SuccessfulItems (projr (Process exampleLib scenarioConfig scenarioFile exampleQuerier None))) = 1
   \<and> length (TriageRows (projr (Process exampleLib scenarioConfig scenarioFile exampleQuerier None))) = 2
   \<and> BlankRowsDiscarded (projr (Process exampleLib scenarioConfig scenarioFile exampleQuerier None)) = 1"
proof -
  let ?p = "Process exampleLib scenarioConfig scenarioFile exampleQuerier None"
  have ok: "\<not> isl ?p" by code_simp
  have all: "ReadAll scenarioFile = Inr scenarioRecords" by (simp add: scenarioFile_def)
  have len: "length scenarioRecords = 4" by (simp add: scenarioRecords_def)
  have s: "length (SuccessfulItems (projr ?p)) = 1" by code_simp
  have b: "BlankRowsDiscarded (projr ?p) = 1" by code_simp
  from ok have "?p = Inr (projr ?p)" by (cases ?p) simp_all
  from Process_row_count [OF this all] len s b
  have "length (TriageRows (projr ?p)) = 2" by simp
  with ok all len s b show ?thesis by simp
qed



section \<open>The required check\<close>

lemma scast_32_64_eq_0: "((scast (i::32 word) :: 64 word) = 0) = (i = 0)"
proof
  assume z: "(scast i :: 64 word) = 0"
  have "sint (scast i :: 64 word) = sint i"
    by (rule sint_up_scast) (simp add: is_up)
  with z have "sint i = 0" by simp
  then show "i = 0" by (simp add: signed_eq_0_iff)
next
  assume "i = 0" then show "(scast i :: 64 word) = 0" by simp
qed

text \<open>
  Claim C2, as the code has it. With \<open>required\<close> set, the check fails on nil, on a string
  that \<open>strings.TrimSpace\<close> leaves empty (the empty string among them), and on the zero
  time; a zero integer or decimal fails only when the rule carries \<open>allow_zero: false\<close>,
  and passes when \<open>allow_zero\<close> is absent or true.
\<close>

theorem validationRequired_fails_iff:
  assumes "Required rule"
  shows "(validationRequired L queries input rule \<noteq> None \<longleftrightarrow>
     (input = VNil
      \<or> (\<exists>s. input = VString s \<and> TrimSpace L s = [])
      \<or> (\<exists>t. input = VTime t \<and> Time_IsZero t)
      \<or> (AllowZero rule = Some False \<and>
           (input = VInt 0 \<or> input = VInt32 0 \<or> input = VInt64 0
            \<or> (\<exists>d. input = VDecimal d \<and> Decimal_IsZero d)))))
     \<and> (TrimSpace L [] = [] \<longrightarrow> validationRequired L queries (VString []) rule \<noteq> None)"
  using assms
  by (cases input)
     (auto simp: validationRequired_def scast_32_64_eq_0 split: option.splits)

theorem validationRequired_fails_iff_witness:
  "Required (requiredRule\<lparr>AllowZero := Some False\<rparr>)
   \<and> validationRequired exampleLib exampleQuerier (VInt64 0) (requiredRule\<lparr>AllowZero := Some False\<rparr>) \<noteq> None
   \<and> validationRequired exampleLib exampleQuerier (VInt64 0) (requiredRule\<lparr>AllowZero := Some True\<rparr>) = None
   \<and> TrimSpace exampleLib [] = []
   \<and> validationRequired exampleLib exampleQuerier (VString []) (requiredRule\<lparr>AllowZero := Some True\<rparr>) \<noteq> None"
proof -
  have r: "Required (requiredRule\<lparr>AllowZero := Some False\<rparr>)"
    and r': "Required (requiredRule\<lparr>AllowZero := Some True\<rparr>)"
    by (simp_all add: requiredRule_def noRule_def)
  have t: "TrimSpace exampleLib [] = []" by code_simp
  show ?thesis
    using r t validationRequired_fails_iff [OF r, of exampleLib exampleQuerier "VInt64 0"]
      validationRequired_fails_iff [OF r', of exampleLib exampleQuerier "VInt64 0"]
    by simp
qed

text \<open>
  The claim as written fails: a rule that is required and says nothing about
  \<open>allow_zero\<close> accepts the integer zero and the decimal zero.
\<close>

theorem validationRequired_zero_counterexample:
  "Required requiredRule \<and> AllowZero requiredRule = None
   \<and> validationRequired exampleLib exampleQuerier (VInt64 0) requiredRule = None
   \<and> validationRequired exampleLib exampleQuerier (VDecimal (Decimal 0 0)) requiredRule = None"
  by (simp add: requiredRule_def noRule_def validationRequired_def Decimal_IsZero_def)

section \<open>Repair of a row with excess fields\<close>

lemma headerMapLoop_range:
  "headerMapLoop L i hs m k = Some j \<Longrightarrow> m k = Some j \<or> (i \<le> j \<and> j < i + length hs)"
proof (induction hs arbitrary: i m)
  case Nil
  then show ?case by simp
next
  case (Cons h hs)
  from Cons.prems have "headerMapLoop L (Suc i) hs (m(TrimSpace L h \<mapsto> i)) k = Some j"
    by simp
  from Cons.IH [OF this] show ?case by (auto split: if_splits)
qed

lemma headerMap_index_bound:
  "headerMapLoop L 0 headers Map.empty k = Some j \<Longrightarrow> j < length headers"
  using headerMapLoop_range [of L 0 headers Map.empty k j] by simp

lemma mergeColumnIndexLoop_single:
  "filter MergeExcessFields ms = [m] \<Longrightarrow> hm (CSVHeader m) = Some idx
     \<Longrightarrow> mergeColumnIndexLoop hm ms = int idx"
  by (induction ms) (auto split: if_splits)

lemma repairRecord_explicit:
  assumes "mi < n" and "length record > n"
  shows "repairRecord n (int mi) record =
           Some (take mi record @ [Join (take (length record - n + 1) (drop mi record)) '','']
                 @ drop (mi + (length record - n) + 1) record)"
proof -
  have "int mi + (int (length record) - int n) + 1 \<le> int (length record)"
    using assms by linarith
  moreover have "nat (int mi + (int (length record) - int n) + 1 - int mi) = length record - n + 1"
    using assms by linarith
  moreover have "nat (int mi + (int (length record) - int n) + 1) = mi + (length record - n) + 1"
    using assms by linarith
  moreover have "nat (int (length record) - (int mi + (int (length record) - int n) + 1))
                  = length record - (mi + (length record - n) + 1)"
    using assms by linarith
  ultimately show ?thesis
    using assms by (simp add: repairRecord_def slice_def Let_def)
qed

lemma take3_drop:
  assumes "mi + 2 < length xs"
  shows "take 3 (drop mi xs) = [xs ! mi, xs ! (mi + 1), xs ! (mi + 2)]"
proof -
  have a: "drop mi xs = xs ! mi # drop (Suc mi) xs"
    using assms by (intro Cons_nth_drop_Suc [symmetric]) simp
  have b: "drop (Suc mi) xs = xs ! Suc mi # drop (Suc (Suc mi)) xs"
    using assms by (intro Cons_nth_drop_Suc [symmetric]) simp
  have c: "drop (Suc (Suc mi)) xs = xs ! Suc (Suc mi) # drop (Suc (Suc (Suc mi))) xs"
    using assms by (intro Cons_nth_drop_Suc [symmetric]) simp
  have "take 3 (drop mi xs) = take (Suc (Suc (Suc 0))) (drop mi xs)"
    by (simp only: numeral_3_eq_3)
  also have "\<dots> = [xs ! mi, xs ! Suc mi, xs ! Suc (Suc mi)]"
    unfolding a b c by simp
  finally show ?thesis by simp
qed

lemma repairRecord_two_extra:
  assumes mi: "mergeIndex < n"
    and len: "length record = n + 2"
  shows "repairRecord n (int mergeIndex) record =
           Some (take mergeIndex record
                 @ [record ! mergeIndex @ '','' @ record ! (mergeIndex + 1) @ '',''
                      @ record ! (mergeIndex + 2)]
                 @ drop (mergeIndex + 3) record)"
proof -
  have k: "length record - n + 1 = 3" "mergeIndex + (length record - n) + 1 = mergeIndex + 3"
    using len by simp_all
  have lt: "mergeIndex + 2 < length record" using mi len by simp
  have "n < length record" using len by simp
  from repairRecord_explicit [OF mi this] show ?thesis
    unfolding k take3_drop [OF lt] by simp
qed

lemma spliced_fields:
  assumes mi: "mergeIndex < n"
    and len: "length record = n + 2"
    and r: "r = take mergeIndex record @ [joined] @ drop (mergeIndex + 3) record"
  shows "length r = n \<and> r ! mergeIndex = joined
    \<and> (\<forall>j<mergeIndex. r ! j = record ! j)
    \<and> (\<forall>j. mergeIndex < j \<and> j < n \<longrightarrow> r ! j = record ! (j + 2))"
proof (intro conjI allI impI)
  show "length r = n" unfolding r using mi len by simp
next
  have lt: "length (take mergeIndex record) = mergeIndex" using mi len by simp
  show "r ! mergeIndex = joined"
    unfolding r using nth_append_length [of "take mergeIndex record" joined] lt by simp
next
  fix j assume j: "j < mergeIndex"
  have lt: "length (take mergeIndex record) = mergeIndex" using mi len by simp
  have "r ! j = take mergeIndex record ! j"
    unfolding r using j lt by (simp only: nth_append if_True)
  also have "\<dots> = record ! j" using j by simp
  finally show "r ! j = record ! j" .
next
  fix j assume j: "mergeIndex < j \<and> j < n"
  define d where "d = j - Suc mergeIndex"
  have d: "j = Suc mergeIndex + d" using j by (simp add: d_def)
  have lt: "length (take mergeIndex record @ [joined]) = Suc mergeIndex" using mi len by simp
  have "r ! j = ((take mergeIndex record @ [joined]) @ drop (mergeIndex + 3) record)
                  ! (length (take mergeIndex record @ [joined]) + d)"
    unfolding r lt using d by simp
  also have "\<dots> = drop (mergeIndex + 3) record ! d"
    by (rule nth_append_length_plus)
  also have "\<dots> = record ! (mergeIndex + 3 + d)"
  proof (rule nth_drop)
    show "mergeIndex + 3 \<le> length record" using mi len by simp
  qed
  also have "mergeIndex + 3 + d = j + 2" using d by simp
  finally show "r ! j = record ! (j + 2)" .
qed

text \<open>
  Claim C5. A record two fields wider than the header, with exactly one mapping marked
  as merge target and its header in the header map: the repair does not panic, the
  repaired record has header width, the field at the merge index is the three original
  fields from there joined by commas, the fields before it are unchanged and the fields
  after it are the original fields two places further on.
\<close>

theorem repairRecord_two_extra_fields:
  assumes one: "filter MergeExcessFields (ColumnMappings config) = [m]"
    and hdr: "headerMapLoop L 0 headers Map.empty (CSVHeader m) = Some mergeIndex"
    and len: "length record = length headers + 2"
  shows "\<exists>repaired.
           repairRecord (length headers)
             (mergeColumnIndexLoop (headerMapLoop L 0 headers Map.empty) (ColumnMappings config)) record
             = Some repaired
         \<and> length repaired = length headers
         \<and> repaired ! mergeIndex =
             record ! mergeIndex @ '','' @ record ! (mergeIndex + 1) @ '','' @ record ! (mergeIndex + 2)
         \<and> (\<forall>j<mergeIndex. repaired ! j = record ! j)
         \<and> (\<forall>j. mergeIndex < j \<and> j < length headers \<longrightarrow> repaired ! j = record ! (j + 2))"
proof -
  have mi: "mergeIndex < length headers" using hdr by (rule headerMap_index_bound)
  have idx: "mergeColumnIndexLoop (headerMapLoop L 0 headers Map.empty) (ColumnMappings config)
               = int mergeIndex"
    using one hdr by (rule mergeColumnIndexLoop_single)
  show ?thesis
    unfolding idx repairRecord_two_extra [OF mi len]
    using spliced_fields [OF mi len refl] by blast
qed

theorem repairRecord_two_extra_fields_witness:
  "filter MergeExcessFields (ColumnMappings mergeConfig) = [notesMapping]
   \<and> headerMapLoop exampleLib 0 mergeHeaders Map.empty (CSVHeader notesMapping) = Some 1
   \<and> length splitRecord = length mergeHeaders + 2
   \<and> repairRecord (length mergeHeaders)
        (mergeColumnIndexLoop (headerMapLoop exampleLib 0 mergeHeaders Map.empty) (ColumnMappings mergeConfig))
        splitRecord = Some [''7'', ''wet,cold,late'', ''12'']"
proof -
  have one: "filter MergeExcessFields (ColumnMappings mergeConfig) = [notesMapping]"
    by (simp add: mergeConfig_def notesMapping_def)
  have hdr: "headerMapLoop exampleLib 0 mergeHeaders Map.empty (CSVHeader notesMapping) = Some 1"
    by code_simp
  have len: "length splitRecord = length mergeHeaders + 2"
    by (simp add: splitRecord_def mergeHeaders_def)
  from repairRecord_two_extra_fields [OF one hdr len] obtain repaired where
    rep: "repairRecord (length mergeHeaders)
            (mergeColumnIndexLoop (headerMapLoop exampleLib 0 mergeHeaders Map.empty) (ColumnMappings mergeConfig))
            splitRecord = Some repaired"
    and l: "length repaired = length mergeHeaders"
    and m: "repaired ! 1 = splitRecord ! 1 @ '','' @ splitRecord ! (1 + 1) @ '','' @ splitRecord ! (1 + 2)"
    and p: "\<forall>j<1. repaired ! j = splitRecord ! j"
    and q: "\<forall>j. 1 < j \<and> j < length mergeHeaders \<longrightarrow> repaired ! j = splitRecord ! (j + 2)"
    by blast
  have l3: "length repaired = 3" using l by (simp add: mergeHeaders_def)
  have "repaired ! 0 = ''7''" using p by (simp add: splitRecord_def)
  moreover have "repaired ! 1 = ''wet,cold,late''" using m by (simp add: splitRecord_def)
  moreover have "repaired ! 2 = ''12''"
    using q [rule_format, of 2] by (simp add: splitRecord_def mergeHeaders_def)
  ultimately have "repaired = [''7'', ''wet,cold,late'', ''12'']"
    using l3 by (simp add: list_eq_iff_nth_eq less_Suc_eq numeral_3_eq_3 numeral_2_eq_2)
  with one hdr len rep show ?thesis by simp
qed

text \<open>
  The slice expressions of the repair never panic in \<open>Process\<close>: the merge index is -1
  or an index of the header row.
\<close>

lemma mergeColumnIndexLoop_cases:
  "mergeColumnIndexLoop hm ms = - 1
   \<or> (\<exists>h idx. hm h = Some idx \<and> mergeColumnIndexLoop hm ms = int idx)"
  by (induction ms) (auto split: option.splits)

lemma repairRecord_defined:
  assumes "mci = - 1 \<or> (\<exists>mi. mci = int mi \<and> mi < n)"
  shows "\<exists>r. repairRecord n mci record = Some r"
proof (cases "length record > n \<and> mci \<noteq> - 1")
  case True
  with assms obtain mi where "mci = int mi" "mi < n" by auto
  with True repairRecord_explicit [of mi n "record"] show ?thesis by simp
next
  case False
  then show ?thesis by (auto simp: repairRecord_def)
qed

lemma recordBody_returns:
  assumes "mci = - 1 \<or> (\<exists>mi. mci = int mi \<and> mi < length headers)"
  shows "\<exists>result'. recordBody L config queries embedder headers headerMap mci sjf i record0 result
           = Inr result'"
proof -
  from repairRecord_defined [OF assms] obtain r where
    "repairRecord (length headers) mci record0 = Some r" by blast
  then show ?thesis
    by (simp add: recordBody_def Let_def split: sum.splits option.splits dyn_value.splits)
qed

lemma RecordLoop_returns:
  assumes "mci = - 1 \<or> (\<exists>mi. mci = int mi \<and> mi < length headers)"
  shows "\<exists>result'. RecordLoop L config queries embedder headers headerMap mci sjf i records result
           = Inr result'"
proof (induction records arbitrary: i result)
  case Nil
  then show ?case by simp
next
  case (Cons r rs)
  from recordBody_returns [OF assms] obtain mid where
    "recordBody L config queries embedder headers headerMap mci sjf i r result = Inr mid"
    by blast
  with Cons.IH [of "Suc i" mid] show ?case by simp
qed

lemma Process_never_panics:
  "Process L config file queries embedder \<noteq> Inl SliceBoundsPanic"
proof -
  have idx: "\<And>headers. mergeColumnIndexLoop (headerMapLoop L 0 headers Map.empty) (ColumnMappings config) = - 1
          \<or> (\<exists>mi. mergeColumnIndexLoop (headerMapLoop L 0 headers Map.empty) (ColumnMappings config) = int mi
                 \<and> mi < length headers)"
    using mergeColumnIndexLoop_cases headerMap_index_bound by metis
  have loop: "RecordLoop L config queries embedder headers (headerMapLoop L 0 headers Map.empty)
                (mergeColumnIndexLoop (headerMapLoop L 0 headers Map.empty) (ColumnMappings config))
                sjf 0 records result \<noteq> Inl SliceBoundsPanic" for headers sjf records result
    using RecordLoop_returns [OF idx, of L config queries embedder headers
            "headerMapLoop L 0 headers Map.empty" sjf 0 records result]
    by auto
  show ?thesis
    using loop by (simp add: Process_def Let_def split: sum.splits option.splits)
qed

section \<open>Transform attempts of a column mapping\<close>

lemma attemptsLoop_first_success:
  assumes "\<forall>b\<in>set pre. isl (applyTransforms L raw (Transforms b))"
    and "applyTransforms L raw (Transforms a) = Inr v"
  shows "\<exists>te. attemptsLoop L raw (pre @ a # post) (tv, te0, ts) = (v, te, True)"
  using assms
proof (induction pre arbitrary: te0)
  case Nil
  then show ?case by simp
next
  case (Cons b pre)
  then obtain err where "applyTransforms L raw (Transforms b) = Inl err"
    by (cases "applyTransforms L raw (Transforms b)") auto
  with Cons show ?case by simp
qed

lemma attemptsLoop_all_fail:
  assumes "\<forall>b\<in>set as. isl (applyTransforms L raw (Transforms b))"
  shows "attemptsLoop L raw as (tv, te, ts) =
           (tv, (if as = [] then te
                 else Some (projl (applyTransforms L raw (Transforms (last as))))), ts)"
  using assms
proof (induction as arbitrary: te)
  case Nil
  then show ?case by simp
next
  case (Cons b as)
  then obtain err where "applyTransforms L raw (Transforms b) = Inl err"
    by (cases "applyTransforms L raw (Transforms b)") auto
  with Cons show ?case by simp
qed

lemma transformLoop_append:
  "transformLoop L v (ts @ ts') =
     (case transformLoop L v ts of Inl e \<Rightarrow> Inl e | Inr v' \<Rightarrow> transformLoop L v' ts')"
  by (induction ts arbitrary: v) (simp_all add: Let_def split: option.splits sum.splits)

lemma processColumn_success:
  assumes "Attempts m = pre @ a # post"
    and "\<forall>b\<in>set pre. isl (applyTransforms L (rawField record headerMap m) (Transforms b))"
    and "applyTransforms L (rawField record headerMap m) (Transforms a) = Inr v"
  shows "processColumn L queries record headerMap m pd =
           (case applyValidation L queries v (Validation m) of
              Some err \<Rightarrow> Inl (ValidationFailed (CSVHeader m) v err)
            | None \<Rightarrow> Inr (pd(JSONField m \<mapsto> v)))"
proof -
  from attemptsLoop_first_success [OF assms(2,3)] obtain te where
    "attemptsLoop L (rawField record headerMap m) (Attempts m)
       (VString (rawField record headerMap m), None, False) = (v, te, True)"
    unfolding assms(1) by blast
  then show ?thesis
    by (simp add: processColumn_def Let_def assms(1))
qed

lemma processColumn_all_fail:
  assumes "Attempts m \<noteq> []"
    and "\<forall>b\<in>set (Attempts m). isl (applyTransforms L (rawField record headerMap m) (Transforms b))"
  shows "processColumn L queries record headerMap m pd =
           Inl (AllAttemptsFailed (CSVHeader m) (rawField record headerMap m)
                  (Some (projl (applyTransforms L (rawField record headerMap m)
                                  (Transforms (last (Attempts m)))))))"
  using assms attemptsLoop_all_fail [OF assms(2)]
  by (simp add: processColumn_def Let_def)

lemma processColumn_no_attempts:
  assumes "Attempts m = []"
  shows "processColumn L queries record headerMap m pd =
           (case applyValidation L queries (VString (rawField record headerMap m)) (Validation m) of
              Some err \<Rightarrow>
                Inl (ValidationFailed (CSVHeader m) (VString (rawField record headerMap m)) err)
            | None \<Rightarrow> Inr (pd(JSONField m \<mapsto> VString (rawField record headerMap m))))"
  using assms by (simp add: processColumn_def Let_def)

lemma processRowLoop_append:
  "processRowLoop L queries record headerMap (xs @ ys) pd =
     (case processRowLoop L queries record headerMap xs pd of
        Inl err \<Rightarrow> Inl err
      | Inr pd' \<Rightarrow> processRowLoop L queries record headerMap ys pd')"
  by (induction xs arbitrary: pd) (simp_all split: sum.splits)

lemma processRow_at_mapping:
  assumes "ColumnMappings config = earlierMs @ m # laterMs"
    and "processRowLoop L queries record headerMap earlierMs Map.empty = Inr pd"
  shows "processRow L config record headerMap queries =
           (case processColumn L queries record headerMap m pd of
              Inl err \<Rightarrow> Inl err
            | Inr pd' \<Rightarrow> processRowLoop L queries record headerMap laterMs pd')"
  using assms by (simp add: processRow_def processRowLoop_append)

lemma processColumn_binds:
  "processColumn L queries record headerMap m pd = Inr pd' \<Longrightarrow> k \<noteq> JSONField m \<Longrightarrow> pd' k = pd k"
  by (auto simp: processColumn_def Let_def split: if_splits option.splits prod.splits)

lemma processRowLoop_keeps:
  "processRowLoop L queries record headerMap ms pd = Inr final \<Longrightarrow> k \<notin> JSONField ` set ms
     \<Longrightarrow> final k = pd k"
proof (induction ms arbitrary: pd)
  case Nil
  then show ?case by simp
next
  case (Cons m ms)
  then obtain mid where
    c: "processColumn L queries record headerMap m pd = Inr mid" and
    l: "processRowLoop L queries record headerMap ms mid = Inr final"
    by (auto split: sum.splits)
  from Cons.IH [OF l] Cons.prems(2) processColumn_binds [OF c, of k] show ?case by simp
qed

text \<open>
  Claim C4. For a mapping of the configuration that \<open>processRow\<close> reaches (the mappings
  before it have succeeded and left \<open>pd\<close>), with its raw field: with attempts declared,
  the value validated and bound is the result of the first attempt whose chain succeeds,
  the attempts before it having failed, and \<open>processRow\<close> goes on to the later mappings
  with that binding, which its result keeps unless a later mapping names the same field;
  if every attempt fails, \<open>processRow\<close> fails with the error of the last attempt wrapped;
  with no attempts the raw string goes to validation as it is and is bound. A chain is
  applied in order: the chain \<open>ts @ ts'\<close> is \<open>ts\<close> and then \<open>ts'\<close> on its result.
\<close>

theorem processRow_attempts:
  assumes raw: "raw = rawField record headerMap m"
    and at: "ColumnMappings config = earlierMs @ m # laterMs"
    and before: "processRowLoop L queries record headerMap earlierMs Map.empty = Inr pd"
  shows "(Attempts m = pre @ a # post
            \<and> (\<forall>b\<in>set pre. isl (applyTransforms L raw (Transforms b)))
            \<and> applyTransforms L raw (Transforms a) = Inr v
          \<longrightarrow> processColumn L queries record headerMap m pd =
                (case applyValidation L queries v (Validation m) of
                   Some err \<Rightarrow> Inl (ValidationFailed (CSVHeader m) v err)
                 | None \<Rightarrow> Inr (pd(JSONField m \<mapsto> v)))
              \<and> processRow L config record headerMap queries =
                (case applyValidation L queries v (Validation m) of
                   Some err \<Rightarrow> Inl (ValidationFailed (CSVHeader m) v err)
                 | None \<Rightarrow> processRowLoop L queries record headerMap laterMs (pd(JSONField m \<mapsto> v)))
              \<and> (\<forall>final. processRow L config record headerMap queries = Inr final
                     \<and> JSONField m \<notin> JSONField ` set laterMs
                   \<longrightarrow> final (JSONField m) = Some v))
       \<and> (Attempts m \<noteq> []
            \<and> (\<forall>b\<in>set (Attempts m). isl (applyTransforms L raw (Transforms b)))
          \<longrightarrow> processColumn L queries record headerMap m pd =
                Inl (AllAttemptsFailed (CSVHeader m) raw
                       (Some (projl (applyTransforms L raw (Transforms (last (Attempts m)))))))
              \<and> processRow L config record headerMap queries =
                Inl (AllAttemptsFailed (CSVHeader m) raw
                       (Some (projl (applyTransforms L raw (Transforms (last (Attempts m))))))))
       \<and> (Attempts m = []
          \<longrightarrow> processColumn L queries record headerMap m pd =
                (case applyValidation L queries (VString raw) (Validation m) of
                   Some err \<Rightarrow> Inl (ValidationFailed (CSVHeader m) (VString raw) err)
                 | None \<Rightarrow> Inr (pd(JSONField m \<mapsto> VString raw)))
              \<and> processRow L config record headerMap queries =
                (case applyValidation L queries (VString raw) (Validation m) of
                   Some err \<Rightarrow> Inl (ValidationFailed (CSVHeader m) (VString raw) err)
                 | None \<Rightarrow>
                     processRowLoop L queries record headerMap laterMs
                       (pd(JSONField m \<mapsto> VString raw)))
              \<and> (\<forall>final. processRow L config record headerMap queries = Inr final
                     \<and> JSONField m \<notin> JSONField ` set laterMs
                   \<longrightarrow> final (JSONField m) = Some (VString raw)))
       \<and> applyTransforms L raw (ts @ ts') =
            (case applyTransforms L raw ts of
               Inl e \<Rightarrow> Inl e
             | Inr v' \<Rightarrow> transformLoop L v' ts')"
proof -
  note row = processRow_at_mapping [OF at before]
  have bound: "final (JSONField m) = Some w"
    if "processColumn L queries record headerMap m pd =
          (case applyValidation L queries w (Validation m) of
             Some err \<Rightarrow> Inl (ValidationFailed (CSVHeader m) w err)
           | None \<Rightarrow> Inr (pd(JSONField m \<mapsto> w)))"
      and "processRow L config record headerMap queries = Inr final"
      and "JSONField m \<notin> JSONField ` set laterMs" for final w
  proof -
    from that(1,2) row have
      "processRowLoop L queries record headerMap laterMs (pd(JSONField m \<mapsto> w)) = Inr final"
      by (auto split: option.splits)
    from processRowLoop_keeps [OF this that(3)] show ?thesis by simp
  qed
  show ?thesis
  proof (intro conjI impI allI)
    assume h: "Attempts m = pre @ a # post
            \<and> (\<forall>b\<in>set pre. isl (applyTransforms L raw (Transforms b)))
            \<and> applyTransforms L raw (Transforms a) = Inr v"
    then show c: "processColumn L queries record headerMap m pd =
                (case applyValidation L queries v (Validation m) of
                   Some err \<Rightarrow> Inl (ValidationFailed (CSVHeader m) v err)
                 | None \<Rightarrow> Inr (pd(JSONField m \<mapsto> v)))"
      unfolding raw using processColumn_success by blast
    then show "processRow L config record headerMap queries =
                (case applyValidation L queries v (Validation m) of
                   Some err \<Rightarrow> Inl (ValidationFailed (CSVHeader m) v err)
                 | None \<Rightarrow> processRowLoop L queries record headerMap laterMs (pd(JSONField m \<mapsto> v)))"
      by (simp add: row split: option.splits)
    fix final
    assume "processRow L config record headerMap queries = Inr final
              \<and> JSONField m \<notin> JSONField ` set laterMs"
    with c show "final (JSONField m) = Some v" using bound by blast
  next
    assume h: "Attempts m \<noteq> []
            \<and> (\<forall>b\<in>set (Attempts m). isl (applyTransforms L raw (Transforms b)))"
    then show c: "processColumn L queries record headerMap m pd =
                Inl (AllAttemptsFailed (CSVHeader m) raw
                       (Some (projl (applyTransforms L raw (Transforms (last (Attempts m)))))))"
      unfolding raw using processColumn_all_fail by blast
    then show "processRow L config record headerMap queries =
                Inl (AllAttemptsFailed (CSVHeader m) raw
                       (Some (projl (applyTransforms L raw (Transforms (last (Attempts m)))))))"
      by (simp add: row)
  next
    assume h: "Attempts m = []"
    then show c: "processColumn L queries record headerMap m pd =
                (case applyValidation L queries (VString raw) (Validation m) of
                   Some err \<Rightarrow> Inl (ValidationFailed (CSVHeader m) (VString raw) err)
                 | None \<Rightarrow> Inr (pd(JSONField m \<mapsto> VString raw)))"
      unfolding raw by (rule processColumn_no_attempts)
    then show "processRow L config record headerMap queries =
                (case applyValidation L queries (VString raw) (Validation m) of
                   Some err \<Rightarrow> Inl (ValidationFailed (CSVHeader m) (VString raw) err)
                 | None \<Rightarrow>
                     processRowLoop L queries record headerMap laterMs
                       (pd(JSONField m \<mapsto> VString raw)))"
      by (simp add: row split: option.splits)
    fix final
    assume "processRow L config record headerMap queries = Inr final
              \<and> JSONField m \<notin> JSONField ` set laterMs"
    with c show "final (JSONField m) = Some (VString raw)" using bound by blast
  next
    show "applyTransforms L raw (ts @ ts') =
            (case applyTransforms L raw ts of
               Inl e \<Rightarrow> Inl e
             | Inr v' \<Rightarrow> transformLoop L v' ts')"
      by (simp add: applyTransforms_def transformLoop_append)
  qed
qed

theorem processRow_attempts_witness:
  "(case processRow exampleLib (attemptsConfig codeMapping) codeRecord codeHeaderMap exampleQuerier of
      Inr pd \<Rightarrow> pd ''code'' = Some (VString ''ABC'') | Inl e \<Rightarrow> False)
   \<and> processRow exampleLib (attemptsConfig numberMapping) codeRecord codeHeaderMap exampleQuerier
       = Inl (AllAttemptsFailed ''code'' '' abc ''
               (Some (TransformFailed ''to_decimal'' (CouldNotParseDecimal '' abc ''))))
   \<and> (case processRow exampleLib (attemptsConfig plainMapping) codeRecord codeHeaderMap exampleQuerier of
      Inr pd \<Rightarrow> pd ''code'' = Some (VString '' abc '') | Inl e \<Rightarrow> False)"
proof -
  let ?raw = "'' abc ''"
  let ?pd = "projr (processRowLoop exampleLib exampleQuerier codeRecord codeHeaderMap [idMapping] Map.empty)"
  have "\<not> isl (processRowLoop exampleLib exampleQuerier codeRecord codeHeaderMap [idMapping] Map.empty)"
    by code_simp
  then have before: "processRowLoop exampleLib exampleQuerier codeRecord codeHeaderMap [idMapping] Map.empty
                       = Inr ?pd"
    by (cases "processRowLoop exampleLib exampleQuerier codeRecord codeHeaderMap [idMapping] Map.empty")
       simp_all
  have at: "ColumnMappings (attemptsConfig m) = [idMapping] @ m # []" for m
    by (simp add: attemptsConfig_def)
  have raw1: "?raw = rawField codeRecord codeHeaderMap codeMapping"
    and raw2: "?raw = rawField codeRecord codeHeaderMap numberMapping"
    and raw3: "?raw = rawField codeRecord codeHeaderMap plainMapping"
    by code_simp+
  have a1: "Attempts codeMapping
              = [\<lparr>Transforms = [''to_integer'']\<rparr>] @ \<lparr>Transforms = [''trim_space'', ''to_uppercase'']\<rparr> # []"
    by (simp add: codeMapping_def)
  have f1: "\<forall>b\<in>set [\<lparr>Transforms = [''to_integer'']\<rparr>]. isl (applyTransforms exampleLib ?raw (Transforms b))"
    by code_simp
  have s1: "applyTransforms exampleLib ?raw (Transforms \<lparr>Transforms = [''trim_space'', ''to_uppercase'']\<rparr>)
              = Inr (VString ''ABC'')"
    by code_simp
  have v1: "applyValidation exampleLib exampleQuerier (VString ''ABC'') (Validation codeMapping) = None"
    by code_simp
  note i1 = processRow_attempts [OF raw1 at before, where pre = "[\<lparr>Transforms = [''to_integer'']\<rparr>]"
        and a = "\<lparr>Transforms = [''trim_space'', ''to_uppercase'']\<rparr>" and post = "[]"
        and v = "VString ''ABC''", THEN conjunct1, THEN mp, OF conjI [OF a1 conjI [OF f1 s1]],
        THEN conjunct2, THEN conjunct1]
  have one: "processRow exampleLib (attemptsConfig codeMapping) codeRecord codeHeaderMap exampleQuerier
               = Inr (?pd(JSONField codeMapping \<mapsto> VString ''ABC''))"
    unfolding i1 v1 by simp
  have n2: "Attempts numberMapping \<noteq> []" by (simp add: numberMapping_def)
  have f2: "\<forall>b\<in>set (Attempts numberMapping). isl (applyTransforms exampleLib ?raw (Transforms b))"
    by code_simp
  have l2: "projl (applyTransforms exampleLib ?raw (Transforms (last (Attempts numberMapping))))
              = TransformFailed ''to_decimal'' (CouldNotParseDecimal ?raw)"
    by code_simp
  note i2 = processRow_attempts [OF raw2 at before, THEN conjunct2, THEN conjunct1, THEN mp,
        OF conjI [OF n2 f2], THEN conjunct2]
  have two: "processRow exampleLib (attemptsConfig numberMapping) codeRecord codeHeaderMap exampleQuerier
               = Inl (AllAttemptsFailed ''code'' ?raw
                       (Some (TransformFailed ''to_decimal'' (CouldNotParseDecimal ?raw))))"
    unfolding i2 l2 by (simp add: numberMapping_def)
  have e3: "Attempts plainMapping = []" by (simp add: plainMapping_def)
  have v3: "applyValidation exampleLib exampleQuerier (VString ?raw) (Validation plainMapping) = None"
    by code_simp
  note i3 = processRow_attempts [OF raw3 at before, THEN conjunct2, THEN conjunct2, THEN conjunct1,
        THEN mp, OF e3, THEN conjunct2, THEN conjunct1]
  have three: "processRow exampleLib (attemptsConfig plainMapping) codeRecord codeHeaderMap exampleQuerier
               = Inr (?pd(JSONField plainMapping \<mapsto> VString ?raw))"
    unfolding i3 v3 by simp
  show ?thesis
    unfolding one two three by (simp add: codeMapping_def plainMapping_def)
qed

section \<open>Transform names outside the registry\<close>

lemma applyTransforms_unknown:
  assumes "transformRegistry (SplitN2 t ! 0) = None"
    and "transformLoop L (VString raw) pre = Inr v'"
  shows "applyTransforms L raw (pre @ t # post) = Inl (UnknownTransform (SplitN2 t ! 0))"
  using assms by (simp add: applyTransforms_def transformLoop_append Let_def)

lemma definedHeadersLoop_attempts:
  "definedHeadersLoop (map (\<lambda>m. m\<lparr>Attempts := f m\<rparr>) ms) acc = definedHeadersLoop ms acc"
  by (induction ms arbitrary: acc) simp_all

lemma Validate_ignores_attempts:
  "Validate (config\<lparr>ColumnMappings := map (\<lambda>m. m\<lparr>Attempts := f m\<rparr>) (ColumnMappings config)\<rparr>)
     = Validate config"
  by (simp add: Validate_def definedHeadersLoop_attempts Let_def split: option.splits)

lemma missingHeader_attempts:
  "missingHeader hm (map (\<lambda>m. m\<lparr>Attempts := f m\<rparr>) ms) = missingHeader hm ms"
  by (induction ms) (simp_all split: option.splits)

lemma mergeColumnIndexLoop_attempts:
  "mergeColumnIndexLoop hm (map (\<lambda>m. m\<lparr>Attempts := f m\<rparr>) ms) = mergeColumnIndexLoop hm ms"
  by (induction ms) (simp_all split: option.splits)

lemma scopeJSONFieldLoop_attempts:
  "scopeJSONFieldLoop sf (map (\<lambda>m. m\<lparr>Attempts := f m\<rparr>) ms) = scopeJSONFieldLoop sf ms"
  by (induction ms) simp_all

lemma Process_no_rows_ignores_attempts:
  assumes "ReadAll file = Inr []"
  shows "Process L (config\<lparr>ColumnMappings := map (\<lambda>m. m\<lparr>Attempts := f m\<rparr>) (ColumnMappings config)\<rparr>)
           file queries embedder
         = Process L config file queries embedder"
  using assms
  by (simp add: Process_def Let_def missingHeader_attempts mergeColumnIndexLoop_attempts
                scopeJSONFieldLoop_attempts
           split: sum.splits option.splits)

text \<open>
  Claim C9, as the code has it. Nothing checks a transform name before a row is
  processed: \<open>Validate\<close> and a run of \<open>Process\<close> over no data rows give the same result
  whatever attempts the mappings carry. For a mapping that \<open>processRow\<close> reaches, an
  attempt whose chain reaches a name the registry does not hold fails there with the
  unknown-transform error. If it is the last attempt of the mapping and the earlier
  attempts failed too, \<open>processRow\<close> fails with that error wrapped; if a later attempt
  succeeds, its value is validated and bound, \<open>processRow\<close> goes on to the later
  mappings, and the error is dropped.
\<close>

theorem unknown_transform_fails_attempt:
  assumes raw: "raw = rawField record headerMap m"
    and at: "ColumnMappings config = earlierMs @ m # laterMs"
    and before: "processRowLoop L queries record headerMap earlierMs Map.empty = Inr pd"
    and unk: "transformRegistry (SplitN2 t ! 0) = None"
    and reach: "transformLoop L (VString raw) pre = Inr v'"
    and a: "Transforms a = pre @ t # post"
  shows "Validate (cfg\<lparr>ColumnMappings := map (\<lambda>m. m\<lparr>Attempts := f m\<rparr>) (ColumnMappings cfg)\<rparr>)
           = Validate cfg
       \<and> (ReadAll file = Inr []
          \<longrightarrow> Process L (cfg\<lparr>ColumnMappings := map (\<lambda>m. m\<lparr>Attempts := f m\<rparr>) (ColumnMappings cfg)\<rparr>)
                file queries embedder
              = Process L cfg file queries embedder)
       \<and> applyTransforms L raw (Transforms a) = Inl (UnknownTransform (SplitN2 t ! 0))
       \<and> (Attempts m = earlier @ [a]
            \<and> (\<forall>b\<in>set earlier. isl (applyTransforms L raw (Transforms b)))
          \<longrightarrow> processColumn L queries record headerMap m pd =
                Inl (AllAttemptsFailed (CSVHeader m) raw (Some (UnknownTransform (SplitN2 t ! 0))))
              \<and> processRow L config record headerMap queries =
                Inl (AllAttemptsFailed (CSVHeader m) raw (Some (UnknownTransform (SplitN2 t ! 0)))))
       \<and> (Attempts m = earlier @ a # later @ a' # rest
            \<and> (\<forall>b\<in>set (earlier @ later). isl (applyTransforms L raw (Transforms b)))
            \<and> applyTransforms L raw (Transforms a') = Inr v
          \<longrightarrow> processColumn L queries record headerMap m pd =
                (case applyValidation L queries v (Validation m) of
                   Some err \<Rightarrow> Inl (ValidationFailed (CSVHeader m) v err)
                 | None \<Rightarrow> Inr (pd(JSONField m \<mapsto> v)))
              \<and> processRow L config record headerMap queries =
                (case applyValidation L queries v (Validation m) of
                   Some err \<Rightarrow> Inl (ValidationFailed (CSVHeader m) v err)
                 | None \<Rightarrow> processRowLoop L queries record headerMap laterMs (pd(JSONField m \<mapsto> v))))"
proof -
  note row = processRow_at_mapping [OF at before]
  have u: "applyTransforms L raw (Transforms a) = Inl (UnknownTransform (SplitN2 t ! 0))"
    unfolding a using unk reach by (rule applyTransforms_unknown)
  have last: "processColumn L queries record headerMap m pd =
                Inl (AllAttemptsFailed (CSVHeader m) raw (Some (UnknownTransform (SplitN2 t ! 0))))"
    if h: "Attempts m = earlier @ [a]
            \<and> (\<forall>b\<in>set earlier. isl (applyTransforms L raw (Transforms b)))"
  proof -
    from h have "Attempts m \<noteq> []"
      and "\<forall>b\<in>set (Attempts m). isl (applyTransforms L (rawField record headerMap m) (Transforms b))"
      and "last (Attempts m) = a"
      using u raw by auto
    from processColumn_all_fail [OF this(1,2)] this(3) u show ?thesis by (simp add: raw)
  qed
  have later: "processColumn L queries record headerMap m pd =
                (case applyValidation L queries v (Validation m) of
                   Some err \<Rightarrow> Inl (ValidationFailed (CSVHeader m) v err)
                 | None \<Rightarrow> Inr (pd(JSONField m \<mapsto> v)))"
    if h: "Attempts m = earlier @ a # later @ a' # rest
            \<and> (\<forall>b\<in>set (earlier @ later). isl (applyTransforms L raw (Transforms b)))
            \<and> applyTransforms L raw (Transforms a') = Inr v"
  proof -
    from h have 1: "Attempts m = (earlier @ a # later) @ a' # rest"
      and 2: "\<forall>b\<in>set (earlier @ a # later). isl (applyTransforms L (rawField record headerMap m) (Transforms b))"
      and 3: "applyTransforms L (rawField record headerMap m) (Transforms a') = Inr v"
      using u raw by auto
    from processColumn_success [OF 1 2 3] show ?thesis .
  qed
  show ?thesis
  proof (intro conjI impI)
    show "Validate (cfg\<lparr>ColumnMappings := map (\<lambda>m. m\<lparr>Attempts := f m\<rparr>) (ColumnMappings cfg)\<rparr>)
           = Validate cfg"
      by (rule Validate_ignores_attempts)
  next
    assume "ReadAll file = Inr []"
    then show "Process L (cfg\<lparr>ColumnMappings := map (\<lambda>m. m\<lparr>Attempts := f m\<rparr>) (ColumnMappings cfg)\<rparr>)
                file queries embedder
              = Process L cfg file queries embedder"
      by (rule Process_no_rows_ignores_attempts)
  next
    show "applyTransforms L raw (Transforms a) = Inl (UnknownTransform (SplitN2 t ! 0))" by (rule u)
  next
    assume h: "Attempts m = earlier @ [a]
            \<and> (\<forall>b\<in>set earlier. isl (applyTransforms L raw (Transforms b)))"
    from last [OF h]
    show c: "processColumn L queries record headerMap m pd =
                Inl (AllAttemptsFailed (CSVHeader m) raw (Some (UnknownTransform (SplitN2 t ! 0))))" .
    then show "processRow L config record headerMap queries =
                Inl (AllAttemptsFailed (CSVHeader m) raw (Some (UnknownTransform (SplitN2 t ! 0))))"
      by (simp add: row)
  next
    assume h: "Attempts m = earlier @ a # later @ a' # rest
            \<and> (\<forall>b\<in>set (earlier @ later). isl (applyTransforms L raw (Transforms b)))
            \<and> applyTransforms L raw (Transforms a') = Inr v"
    from later [OF h]
    show c: "processColumn L queries record headerMap m pd =
                (case applyValidation L queries v (Validation m) of
                   Some err \<Rightarrow> Inl (ValidationFailed (CSVHeader m) v err)
                 | None \<Rightarrow> Inr (pd(JSONField m \<mapsto> v)))" .
    then show "processRow L config record headerMap queries =
                (case applyValidation L queries v (Validation m) of
                   Some err \<Rightarrow> Inl (ValidationFailed (CSVHeader m) v err)
                 | None \<Rightarrow> processRowLoop L queries record headerMap laterMs (pd(JSONField m \<mapsto> v)))"
      by (simp add: row split: option.splits)
  qed
qed

theorem unknown_transform_fails_attempt_witness:
  "processRow exampleLib (attemptsConfig unknownOnlyMapping) codeRecord codeHeaderMap exampleQuerier
     = Inl (AllAttemptsFailed ''code'' '' abc '' (Some (UnknownTransform ''normalize_id'')))
   \<and> Validate (attemptsConfig unknownOnlyMapping) = None"
proof -
  let ?raw = "'' abc ''"
  let ?a = "\<lparr>Transforms = [''trim_space'', ''normalize_id'']\<rparr>"
  let ?pd = "projr (processRowLoop exampleLib exampleQuerier codeRecord codeHeaderMap [idMapping] Map.empty)"
  have "\<not> isl (processRowLoop exampleLib exampleQuerier codeRecord codeHeaderMap [idMapping] Map.empty)"
    by code_simp
  then have before: "processRowLoop exampleLib exampleQuerier codeRecord codeHeaderMap [idMapping] Map.empty
                       = Inr ?pd"
    by (cases "processRowLoop exampleLib exampleQuerier codeRecord codeHeaderMap [idMapping] Map.empty")
       simp_all
  have at: "ColumnMappings (attemptsConfig unknownOnlyMapping) = [idMapping] @ unknownOnlyMapping # []"
    by (simp add: attemptsConfig_def)
  have raw: "?raw = rawField codeRecord codeHeaderMap unknownOnlyMapping" by code_simp
  have n: "SplitN2 ''normalize_id'' ! 0 = ''normalize_id''" by code_simp
  have unk: "transformRegistry (SplitN2 ''normalize_id'' ! 0) = None"
    unfolding n by (simp add: transformRegistry_def)
  have reach: "transformLoop exampleLib (VString ?raw) [''trim_space''] = Inr (VString ''abc'')"
    by code_simp
  have a: "Transforms ?a = [''trim_space''] @ ''normalize_id'' # []" by simp
  have att: "Attempts unknownOnlyMapping = [] @ [?a]" by (simp add: unknownOnlyMapping_def)
  define f :: "ColumnMapping \<Rightarrow> ProcessingAttempt list"
    where "f = (\<lambda>m. if CSVHeader m = ''code''
                     then [\<lparr>Transforms = [''trim_space'', ''normalize_id'']\<rparr>] else [])"
  have same: "attemptsConfig unknownOnlyMapping
                = (attemptsConfig plainMapping)\<lparr>ColumnMappings :=
                     map (\<lambda>m. m\<lparr>Attempts := f m\<rparr>) (ColumnMappings (attemptsConfig plainMapping))\<rparr>"
    by (simp add: f_def attemptsConfig_def unknownOnlyMapping_def plainMapping_def idMapping_def)
  have valid: "Validate (attemptsConfig plainMapping) = None" by code_simp
  note T = unknown_transform_fails_attempt [OF raw at before unk reach a,
        where earlier = "[]" and cfg = "attemptsConfig plainMapping" and f = f]
  have none: "\<forall>b\<in>set []. isl (applyTransforms exampleLib ?raw (Transforms b))" by simp
  note i1 = T [THEN conjunct2, THEN conjunct2, THEN conjunct2, THEN conjunct1, THEN mp,
                 OF conjI [OF att none], THEN conjunct2]
  have one: "processRow exampleLib (attemptsConfig unknownOnlyMapping) codeRecord codeHeaderMap exampleQuerier
     = Inl (AllAttemptsFailed ''code'' ?raw (Some (UnknownTransform ''normalize_id'')))"
    unfolding i1 n by (simp add: unknownOnlyMapping_def)
  note i2 = T [THEN conjunct1]
  have two: "Validate (attemptsConfig unknownOnlyMapping) = None"
    unfolding same i2 by (rule valid)
  from one two show ?thesis by (rule conjI)
qed

text \<open>
  The claim as written fails: the configuration passes \<open>Validate\<close>, the first attempt of
  its mapping names an unknown transform and is evaluated, the second attempt succeeds,
  and the row is a successful item with no triage row.
\<close>

theorem unknown_transform_discarded_counterexample:
  "transformRegistry ''normalize_id'' = None
   \<and> applyTransforms exampleLib '' 42 '' (Transforms (hd (Attempts unknownFirstMapping)))
       = Inl (UnknownTransform ''normalize_id'')
   \<and> Validate unknownConfig = None
   \<and> \<not> isl (Process exampleLib unknownConfig unknownFile exampleQuerier None)
   \<and> length (SuccessfulItems (projr (Process exampleLib unknownConfig unknownFile exampleQuerier None))) = 1
   \<and> length (TriageRows (projr (Process exampleLib unknownConfig unknownFile exampleQuerier None))) = 0"
  by code_simp


section \<open>Business key\<close>





section \<open>Upsert of staged items\<close>

lemma recordBody_items_active:
  assumes "recordBody L config queries embedder headers headerMap mci sjf i record0 result = Inr result'"
    and "\<forall>it\<in>set (SuccessfulItems result). Status it = ''active''"
  shows "\<forall>it\<in>set (SuccessfulItems result'). Status it = ''active''"
  using assms
  by (auto simp: recordBody_def appendTriage_def Let_def
           split: option.splits sum.splits dyn_value.splits if_splits)

lemma RecordLoop_items_active:
  "RecordLoop L config queries embedder headers headerMap mci sjf i records result = Inr result'
     \<Longrightarrow> \<forall>it\<in>set (SuccessfulItems result). Status it = ''active''
     \<Longrightarrow> \<forall>it\<in>set (SuccessfulItems result'). Status it = ''active''"
proof (induction records arbitrary: i result)
  case Nil
  then show ?case by simp
next
  case (Cons r rs)
  then obtain mid where
    body: "recordBody L config queries embedder headers headerMap mci sjf i r result = Inr mid" and
    rest: "RecordLoop L config queries embedder headers headerMap mci sjf (Suc i) rs mid = Inr result'"
    by (auto split: sum.splits)
  from Cons.IH [OF rest recordBody_items_active [OF body Cons.prems(2)]] show ?case .
qed

text \<open>Every item that \<open>Process\<close> hands to the staging loader has the status \<open>active\<close>.\<close>

lemma Process_items_active:
  assumes "Process L config file queries embedder = Inr result"
  shows "\<forall>it\<in>set (SuccessfulItems result). Status it = ''active''"
proof -
  from assms obtain headers headerMap mci sjf allRecords where
    "RecordLoop L config queries embedder headers headerMap mci sjf 0 allRecords
       \<lparr>SuccessfulItems = [], TriageRows = [], BlankRowsDiscarded = 0\<rparr> = Inr result"
    by (auto simp: Process_def Let_def split: sum.splits option.splits if_splits)
  from RecordLoop_items_active [OF this] show ?thesis by simp
qed



lemma hasKey_excluded [simp]: "hasKey t k (excluded now s) = hasKey t k s"
  by (simp add: hasKey_def excluded_def)

lemma hasKey_onConflict [simp]: "hasKey t k (onConflict now r s) = hasKey t k r"
  by (simp add: hasKey_def onConflict_def)








lemma stageRow_columns:
  assumes "stageRow F row = Inr s"
  shows "ItemRow.item_type s = ItemRow.item_type row"
    and "ItemRow.status s = ItemRow.status row"
    and "custom_properties s = custom_properties row"
    and "embedding s = embedding row"
    and "varcharColumn F (scope row) = Inr (scope s)"
    and "varcharColumn F (business_key row) = Inr (business_key s)"
    and "vectorColumn F (embedding row) = None"
  using assms
  by (auto simp: stageRow_def split: if_splits sum.splits option.splits)

lemma stageRows_member:
  "stageRows F rows = Inr staged \<Longrightarrow> row \<in> set rows
     \<Longrightarrow> \<exists>s\<in>set staged. stageRow F row = Inr s"
proof (induction rows arbitrary: staged)
  case Nil
  then show ?case by simp
next
  case (Cons r rows)
  then obtain s0 rest where
    h: "stageRow F r = Inr s0" and t: "stageRows F rows = Inr rest" and st: "staged = s0 # rest"
    by (auto split: sum.splits)
  show ?case
  proof (cases "row = r")
    case True
    with h st show ?thesis by simp
  next
    case False
    with Cons.prems(2) have "row \<in> set rows" by simp
    from Cons.IH [OF t this] st show ?thesis by auto
  qed
qed

lemma saveSuccessfulItems_committed:
  assumes "saveSuccessfulItems F now db items = (Inr n, db')"
  shows "\<exists>staging. stageRows F (map (copyFromRow now) items) = Inr staging
           \<and> upsertLoop now staging [] db = Inr db'"
  using assms
  by (auto simp: saveSuccessfulItems_def CopyFrom_def UpsertItems_def
           split: option.splits sum.splits prod.splits)

lemma staged_payload:
  assumes save: "saveSuccessfulItems F now db items = (Inr n, db')"
    and mem: "b \<in> set items"
  obtains staging s where "upsertLoop now staging [] db = Inr db'" and "s \<in> set staging"
    and "stageRow F (copyFromRow now b) = Inr s"
proof -
  from saveSuccessfulItems_committed [OF save] obtain staging where
    st: "stageRows F (map (copyFromRow now) items) = Inr staging" and
    up: "upsertLoop now staging [] db = Inr db'" by blast
  from mem have "copyFromRow now b \<in> set (map (copyFromRow now) items)" by simp
  from stageRows_member [OF st this] obtain s where
    "s \<in> set staging" "stageRow F (copyFromRow now b) = Inr s" by blast
  with up that show ?thesis by blast
qed

lemma copyFromRow_embedding:
  "embedding (copyFromRow now b) =
     (if 0 < length (Embedding b) \<and> length (Embedding b) \<le> 384 then Some (Embedding b) else None)"
  by (simp add: copyFromRow_def Let_def maxEmbeddingDims_def)

lemma staged_embedding:
  assumes "stageRow F (copyFromRow now b) = Inr s"
  shows "\<not> (0 < length (Embedding b) \<and> length (Embedding b) < 384)"
    and "embedding s = (if length (Embedding b) = 384 then Some (Embedding b) else None)"
proof -
  from stageRow_columns(4,7) [OF assms]
  have e: "embedding s = embedding (copyFromRow now b)"
    and v: "vectorColumn F (embedding (copyFromRow now b)) = None" by simp_all
  from v show "\<not> (0 < length (Embedding b) \<and> length (Embedding b) < 384)"
    by (auto simp: copyFromRow_embedding vectorColumn_def vectorDims_def split: if_splits)
  with e v show "embedding s = (if length (Embedding b) = 384 then Some (Embedding b) else None)"
    by (auto simp: copyFromRow_embedding vectorColumn_def vectorDims_def split: if_splits)
qed

lemma short_vector_refused:
  assumes "b \<in> set items" and "0 < length (Embedding b)" and "length (Embedding b) < 384"
  shows "\<exists>err. saveSuccessfulItems F now db items = (Inl err, db)"
proof (cases "saveSuccessfulItems F now db items")
  case (Pair res db')
  show ?thesis
  proof (cases res)
    case (Inl err)
    with Pair have "db' = db"
      by (auto simp: saveSuccessfulItems_def split: option.splits sum.splits prod.splits)
    with Pair Inl show ?thesis by simp
  next
    case (Inr n)
    with Pair have "saveSuccessfulItems F now db items = (Inr n, db')" by simp
    from staged_payload [OF this assms(1)] obtain s where
      "stageRow F (copyFromRow now b) = Inr s" by blast
    from staged_embedding(1) [OF this] assms(2,3) show ?thesis by simp
  qed
qed







section \<open>Correction of a triage row\<close>

text \<open>
  Claim C7. On tables in which every triage row has its parent job (the foreign key) and
  every job a counter that is not null (the column default): a request answered with
  status 200 has stored the corrected data in the row with status
  \<open>pending_revalidation\<close>, resolver 1 and the current time, and has raised the parent
  job's \<open>resolved_rows_count\<close> by exactly one; a request answered with an error has
  changed neither table.
\<close>

theorem correction_is_atomic:
  assumes run: "updateIngestionError E now db c = (resp, db')"
    and fk: "\<forall>e row. ingestion_errors db e = Some row \<longrightarrow> ingestion_jobs db (job_id row) \<noteq> None"
    and nn: "\<forall>j row. ingestion_jobs db j = Some row \<longrightarrow> resolved_rows_count row \<noteq> None"
  shows "(\<forall>updated. resp = JSON 200 updated \<longrightarrow>
            (\<exists>errorID body correctedData row j n.
               ParseUUID E (Param_errorId c) = Some errorID
             \<and> Bind c = Inr body \<and> body ''corrected_data'' = Some correctedData
             \<and> ingestion_errors db errorID = Some row
             \<and> updated = row\<lparr>corrected_data := Some correctedData,
                               ErrorRow.status := ''pending_revalidation'',
                               resolved_by := Some 1,
                               resolved_at := Some now\<rparr>
             \<and> ingestion_errors db' = (ingestion_errors db)(errorID \<mapsto> updated)
             \<and> ingestion_jobs db (job_id row) = Some j
             \<and> resolved_rows_count j = Some n
             \<and> ingestion_jobs db' =
                 (ingestion_jobs db)(job_id row \<mapsto> j\<lparr>resolved_rows_count := Some (n + 1)\<rparr>)))
       \<and> ((\<exists>code msg. resp = HTTPError code msg) \<longrightarrow> db' = db)"
proof (intro conjI allI impI)
  assume "\<exists>code msg. resp = HTTPError code msg"
  with run show "db' = db"
    by (auto simp: updateIngestionError_def Let_def
             split: option.splits sum.splits prod.splits)
next
  fix updated assume ok: "resp = JSON 200 updated"
  from run ok obtain errorID body correctedData tx1 where
    id: "ParseUUID E (Param_errorId c) = Some errorID" and
    bd: "Bind c = Inr body" and cd: "body ''corrected_data'' = Some correctedData" and
    up: "UpdateIngestionErrorWithCorrection now errorID correctedData (Some 1) db = Inr (updated, tx1)" and
    inc: "IncrementIngestionJobResolvedRows errorID tx1 = Inr db'"
    by (auto simp: updateIngestionError_def Let_def
             split: option.splits sum.splits prod.splits)
  from up obtain row where
    row: "ingestion_errors db errorID = Some row" and
    upd: "updated = row\<lparr>corrected_data := Some correctedData,
                        ErrorRow.status := ''pending_revalidation'',
                        resolved_by := Some 1,
                        resolved_at := Some now\<rparr>" and
    tx1: "tx1 = db\<lparr>ingestion_errors := (ingestion_errors db)(errorID \<mapsto> updated)\<rparr>"
    by (auto simp: UpdateIngestionErrorWithCorrection_def Let_def split: option.splits)
  from fk row nn obtain j n where
    j: "ingestion_jobs db (job_id row) = Some j" and n: "resolved_rows_count j = Some n"
    by (metis option.exhaust)
  have jid: "job_id updated = job_id row" by (simp add: upd)
  from inc have
    "db' = tx1\<lparr>ingestion_jobs :=
                 (ingestion_jobs tx1)(job_id row \<mapsto> j\<lparr>resolved_rows_count := Some (n + 1)\<rparr>)\<rparr>"
    using j n jid by (auto simp: IncrementIngestionJobResolvedRows_def tx1 split: if_splits)
  then have "ingestion_errors db' = (ingestion_errors db)(errorID \<mapsto> updated)"
    and "ingestion_jobs db' =
           (ingestion_jobs db)(job_id row \<mapsto> j\<lparr>resolved_rows_count := Some (n + 1)\<rparr>)"
    by (simp_all add: tx1)
  with id bd cd row upd j n
  show "\<exists>errorID body correctedData row j n.
               ParseUUID E (Param_errorId c) = Some errorID
             \<and> Bind c = Inr body \<and> body ''corrected_data'' = Some correctedData
             \<and> ingestion_errors db errorID = Some row
             \<and> updated = row\<lparr>corrected_data := Some correctedData,
                               ErrorRow.status := ''pending_revalidation'',
                               resolved_by := Some 1,
                               resolved_at := Some now\<rparr>
             \<and> ingestion_errors db' = (ingestion_errors db)(errorID \<mapsto> updated)
             \<and> ingestion_jobs db (job_id row) = Some j
             \<and> resolved_rows_count j = Some n
             \<and> ingestion_jobs db' =
                 (ingestion_jobs db)(job_id row \<mapsto> j\<lparr>resolved_rows_count := Some (n + 1)\<rparr>)"
    by blast
qed

theorem correction_is_atomic_witness:
  "fst (updateIngestionError noTriageFaults 9 triageDB correctionRequest)
     = JSON 200 \<lparr>job_id = ''job-1'', timestamp = 5, original_row_data = ''{}'',
                  reason_for_failure = ''is a required field'', status = ''pending_revalidation'',
                  corrected_data = Some ''[9]'', resolved_at = Some 9, resolved_by = Some 1\<rparr>
   \<and> map_option ErrorRow.status
        (ingestion_errors (snd (updateIngestionError noTriageFaults 9 triageDB correctionRequest)) ''err-1'')
      = Some ''pending_revalidation''
   \<and> map_option resolved_rows_count
        (ingestion_jobs (snd (updateIngestionError noTriageFaults 9 triageDB correctionRequest)) ''job-1'')
      = Some (Some 1)
   \<and> fst (updateIngestionError (noTriageFaults\<lparr>TxCommitError := Some ''connection lost''\<rparr>) 9
            triageDB correctionRequest)
      = HTTPError 500 ''could not commit transaction''
   \<and> snd (updateIngestionError (noTriageFaults\<lparr>TxCommitError := Some ''connection lost''\<rparr>) 9
            triageDB correctionRequest)
      = triageDB"
proof -
  let ?ok = "updateIngestionError noTriageFaults 9 triageDB correctionRequest"
  let ?bad = "updateIngestionError (noTriageFaults\<lparr>TxCommitError := Some ''connection lost''\<rparr>) 9
                triageDB correctionRequest"
  let ?u = "\<lparr>job_id = ''job-1'', timestamp = 5, original_row_data = ''{}'',
             reason_for_failure = ''is a required field'', status = ''pending_revalidation'',
             corrected_data = Some ''[9]'', resolved_at = Some 9, resolved_by = Some 1\<rparr>"
  have fk: "\<forall>e row. ingestion_errors triageDB e = Some row
              \<longrightarrow> ingestion_jobs triageDB (job_id row) \<noteq> None"
    by (auto simp: triageDB_def split: if_splits)
  have nn: "\<forall>j row. ingestion_jobs triageDB j = Some row \<longrightarrow> resolved_rows_count row \<noteq> None"
    by (auto simp: triageDB_def split: if_splits)
  have r1: "fst ?ok = JSON 200 ?u" by code_simp
  then have run1: "?ok = (JSON 200 ?u, snd ?ok)" by (simp add: prod_eq_iff)
  have r2: "fst ?bad = HTTPError 500 ''could not commit transaction''" by code_simp
  then have run2: "?bad = (HTTPError 500 ''could not commit transaction'', snd ?bad)"
    by (simp add: prod_eq_iff)
  have p: "ParseUUID noTriageFaults (Param_errorId correctionRequest) = Some ''err-1''"
    by (simp add: noTriageFaults_def correctionRequest_def)
  from correction_is_atomic [OF run1 fk nn] p obtain row j n where
    "ingestion_errors triageDB ''err-1'' = Some row"
    "ingestion_errors (snd ?ok) = (ingestion_errors triageDB)(''err-1'' \<mapsto> ?u)"
    "ingestion_jobs triageDB (job_id row) = Some j" "resolved_rows_count j = Some n"
    "ingestion_jobs (snd ?ok) =
       (ingestion_jobs triageDB)(job_id row \<mapsto> j\<lparr>resolved_rows_count := Some (n + 1)\<rparr>)"
    by auto
  then have a: "map_option ErrorRow.status (ingestion_errors (snd ?ok) ''err-1'')
                  = Some ''pending_revalidation''"
    and b: "map_option resolved_rows_count (ingestion_jobs (snd ?ok) ''job-1'') = Some (Some 1)"
    by (auto simp: triageDB_def)
  from correction_is_atomic [OF run2 fk nn] have c: "snd ?bad = triageDB" by blast
  from r1 a b r2 c show ?thesis by blast
qed

end
